theory Spec2Isabelle
  imports Complex_Main
begin

section \<open>Color Run: the simulation engine of \<^verbatim>\<open>GameCanvas.tsx\<close>\<close>

text \<open>
  The component keeps its whole simulation in two mutable refs (\<^verbatim>\<open>gameStateRef\<close>,
  \<^verbatim>\<open>timersRef\<close>) and mutates them from \<^verbatim>\<open>handleJump\<close> and from \<^verbatim>\<open>gameLoop\<close>, which
  the browser calls once per animation frame. The embedding passes the refs as one record
  and returns it updated. Drawing on the canvas context has no effect on the refs and is
  left out; everything else of \<^verbatim>\<open>gameLoop\<close> is kept, in the order of the source. The
  guards \<^verbatim>\<open>if (!gameStateRef.current) return\<close> and \<^verbatim>\<open>if (!canvas ...) return\<close> are left out
  as well: the mount effect sets the ref before it registers a listener or requests a
  frame, and the canvas is mounted whenever the effect runs. Line numbers refer to
  \<^verbatim>\<open>src/components/GameCanvas.tsx\<close>.

  JavaScript numbers are modelled as follows: counters, timers, score, combo and lives only
  ever hold integers and are \<open>int\<close>; positions, velocities and sizes are \<open>real\<close>, that is,
  the rounding of IEEE doubles is not modelled.
\<close>

subsection \<open>Configuration (\<^verbatim>\<open>GAME_CONFIG\<close>)\<close>

definition COLORS :: "string list" where
  "COLORS = [''#ff4757'', ''#2ed573'', ''#ffa502'', ''#3742fa'', ''#ff6b9d'']"

definition PLAYER_X :: real where "PLAYER_X = 100"
definition PLAYER_Y :: real where "PLAYER_Y = 300"
definition PLAYER_RADIUS :: real where "PLAYER_RADIUS = 20"
definition PLAYER_GRAVITY :: real where "PLAYER_GRAVITY = 6 / 10"
definition PLAYER_JUMP_POWER :: real where "PLAYER_JUMP_POWER = - 12"

definition OBSTACLE_WIDTH :: real where "OBSTACLE_WIDTH = 30"
definition OBSTACLE_HEIGHT :: real where "OBSTACLE_HEIGHT = 60"
definition OBSTACLE_BASE_SPEED :: real where "OBSTACLE_BASE_SPEED = 3"
definition OBSTACLE_SPAWN_INTERVAL :: int where "OBSTACLE_SPAWN_INTERVAL = 70"

definition POWERUP_SPAWN_CHANCE :: real where "POWERUP_SPAWN_CHANCE = 15 / 100"
definition POWERUP_DURATION :: int where "POWERUP_DURATION = 300"
definition POWERUP_LIFE_SPAWN_CHANCE :: real where "POWERUP_LIFE_SPAWN_CHANCE = 5 / 100"

definition SPEED_INCREASE_RATE :: real where "SPEED_INCREASE_RATE = 8 / 100"
definition MAX_SPEED_MULTIPLIER :: real where "MAX_SPEED_MULTIPLIER = 25 / 10"
definition COMBO_TIMEOUT :: int where "COMBO_TIMEOUT = 600"

subsection \<open>Data model\<close>

datatype obstacle_type = Normal | Bonus | Tall

datatype powerup_type = ShieldItem | BonusItem | LifeItem | JumpBoostItem

datatype collision_type = Pass | Jump | Collision

record player =
  p_x :: real
  p_y :: real
  radius :: real
  vy :: real
  p_color :: string
  isJumping :: bool
  jumpCount :: int
  shield :: int
  jumpBoost :: int
  lives :: int
  invincible :: int

record obstacle =
  o_x :: real
  o_color :: string
  passed :: bool
  o_type :: obstacle_type
  colorChanged :: bool

record powerUp =
  u_x :: real
  u_y :: real
  u_type :: powerup_type
  collected :: bool

record particle =
  q_x :: real
  q_y :: real
  q_vx :: real
  q_vy :: real
  life :: int
  maxLife :: int
  q_color :: string
  q_size :: real

record game_state =
  player :: player
  obstacles :: "obstacle list"
  powerUps :: "powerUp list"
  particles :: "particle list"
  score :: int
  combo :: int
  comboTimer :: int
  bestScore :: int
  level :: int
  isGameOver :: bool
  colorChangeOnNextObstacle :: bool
  backgroundOffset :: real
  gameStarted :: bool

text \<open>
  The refs of the component: the fields of \<^verbatim>\<open>gameStateRef.current\<close>, the three counters of
  \<^verbatim>\<open>timersRef.current\<close>, the value stored under \<^verbatim>\<open>colorRunBestScore\<close> in local storage
  (\<open>None\<close> when the key is absent), and the number of calls of \<^verbatim>\<open>Math.random\<close> made so far.
\<close>

record session = game_state +
  spawn :: int
  colorChange :: int
  powerUpSpawn :: int
  localStorage :: "int option"
  randomCalls :: nat

record canvas =
  width :: real
  height :: real

text \<open>\<^verbatim>\<open>Math.random()\<close> returns a number in \<open>[0, 1)\<close>.\<close>

typedef unit_interval = "{r :: real. 0 \<le> r \<and> r < 1}"
  by (rule exI [of _ 0]) simp

definition rnd :: "real \<Rightarrow> unit_interval" where
  "rnd r = Abs_unit_interval (if 0 \<le> r \<and> r < 1 then r else 0)"

text \<open>
  The environment of a run: whether \<^verbatim>\<open>window\<close> exists, the React state \<^verbatim>\<open>isClient\<close>, and
  the sequence of numbers that \<^verbatim>\<open>Math.random\<close> returns, indexed by the call.
\<close>

record env =
  windowDefined :: bool
  isClient :: bool
  random :: "nat \<Rightarrow> unit_interval"

definition mathRandom :: "env \<Rightarrow> 's session_scheme \<Rightarrow> real" where
  "mathRandom e s = Rep_unit_interval (random e (randomCalls s))"

definition called :: "'s session_scheme \<Rightarrow> 's session_scheme" where
  "called s = s\<lparr>randomCalls := Suc (randomCalls s)\<rparr>"

subsection \<open>Best score store (lines 122-137)\<close>

text \<open>
  \<^verbatim>\<open>saveBestScore\<close> stores \<^verbatim>\<open>score.toString()\<close> and \<^verbatim>\<open>getBestScore\<close> parses what is stored, with
  \<^verbatim>\<open>"0"\<close> for an absent key; the store is modelled by the number itself.
\<close>

definition getBestScore :: "env \<Rightarrow> int option \<Rightarrow> int" where
  "getBestScore e st =
     (if windowDefined e \<and> isClient e then (case st of None \<Rightarrow> 0 | Some v \<Rightarrow> v) else 0)"

definition saveBestScore :: "env \<Rightarrow> int \<Rightarrow> session \<Rightarrow> session" where
  "saveBestScore e sc s =
     (if windowDefined e \<and> isClient e then s\<lparr>localStorage := Some sc\<rparr> else s)"

subsection \<open>Initial state and reset (lines 140-169 and 197-200)\<close>

definition createInitialGameState :: "env \<Rightarrow> int option \<Rightarrow> game_state" where
  "createInitialGameState e st =
     \<lparr>player = \<lparr>p_x = PLAYER_X, p_y = PLAYER_Y, radius = PLAYER_RADIUS, vy = 0,
                 p_color = COLORS ! 0, isJumping = False, jumpCount = 0, shield = 0,
                 jumpBoost = 0, lives = 3, invincible = 0\<rparr>,
      obstacles = [], powerUps = [], particles = [],
      score = 0, combo = 0, comboTimer = 0, bestScore = getBestScore e st, level = 1,
      isGameOver = False, colorChangeOnNextObstacle = False, backgroundOffset = 0,
      gameStarted = False\<rparr>"

definition resetGame :: "env \<Rightarrow> session \<Rightarrow> session" where
  "resetGame e s =
     game_state.extend (createInitialGameState e (localStorage s))
       (session.fields 0 0 0 (localStorage s) (randomCalls s))"

subsection \<open>Particles (lines 172-194)\<close>

text \<open>
  Each particle takes two random numbers, first for its speed and then for its size.
\<close>

definition pushParticle ::
  "env \<Rightarrow> real \<Rightarrow> real \<Rightarrow> string \<Rightarrow> nat \<Rightarrow> nat \<Rightarrow> session \<Rightarrow> session" where
  "pushParticle e x y c count i s =
     (let angle = (pi * 2 * real i) / real count;
          speed = 2 + mathRandom e s * 3;
          s1 = called s;
          sz = 2 + mathRandom e s1 * 3;
          s2 = called s1
      in s2\<lparr>particles := particles s2 @
              [\<lparr>q_x = x, q_y = y, q_vx = cos angle * speed, q_vy = sin angle * speed,
                life = 30, maxLife = 30, q_color = c, q_size = sz\<rparr>]\<rparr>)"

definition createParticles ::
  "env \<Rightarrow> real \<Rightarrow> real \<Rightarrow> string \<Rightarrow> nat \<Rightarrow> session \<Rightarrow> session" where
  "createParticles e x y c count s = fold (pushParticle e x y c count) [0..<count] s"

subsection \<open>Starting and jumping (lines 256-298)\<close>

definition startGame :: "session \<Rightarrow> session" where
  "startGame s = s\<lparr>gameStarted := True\<rparr>"

definition handleJump :: "env \<Rightarrow> session \<Rightarrow> session" where
  "handleJump e s =
     (if \<not> gameStarted s then startGame s
      else if isGameOver s then s
      else
        let p = player s in
        if jumpCount p < 2 then
          let jumpPower = (if jumpBoost p > 0 then PLAYER_JUMP_POWER * (14 / 10)
                           else PLAYER_JUMP_POWER);
              p1 = p\<lparr>vy := jumpPower, isJumping := True, jumpCount := jumpCount p + 1\<rparr>;
              particleCount = (if jumpCount p1 = 2 then 8 else 5);
              particleColor = (if jumpBoost p1 > 0 then ''#2ed573''
                               else if jumpCount p1 = 2 then ''#ffa502'' else p_color p1)
          in createParticles e (p_x p1) (p_y p1 + radius p1) particleColor particleCount
               (s\<lparr>player := p1\<rparr>)
        else s)"

subsection \<open>Collision tests (lines 301-348)\<close>

text \<open>
  The result of \<^verbatim>\<open>checkCollision\<close> is the pair of its \<^verbatim>\<open>hit\<close> and \<^verbatim>\<open>type\<close> fields.
\<close>

definition obstacleHeight :: "obstacle \<Rightarrow> real" where
  "obstacleHeight ob =
     (if o_type ob = Tall then OBSTACLE_HEIGHT * (18 / 10) else OBSTACLE_HEIGHT)"

definition obstacleTop :: "canvas \<Rightarrow> obstacle \<Rightarrow> real" where
  "obstacleTop cv ob = height cv - obstacleHeight ob - 20"

definition obstacleBottom :: "canvas \<Rightarrow> real" where
  "obstacleBottom cv = height cv - 20"

definition xOverlap :: "player \<Rightarrow> obstacle \<Rightarrow> bool" where
  "xOverlap p ob \<longleftrightarrow>
     o_x ob < p_x p + radius p \<and> o_x ob + OBSTACLE_WIDTH > p_x p - radius p"

definition checkCollision :: "player \<Rightarrow> obstacle \<Rightarrow> canvas \<Rightarrow> bool \<times> collision_type" where
  "checkCollision p ob cv =
     (if \<not> xOverlap p ob then (False, Pass)
      else if p_y p + radius p \<le> obstacleTop cv ob + 5 then (False, Jump)
      else if p_y p + radius p > obstacleTop cv ob \<and> p_y p - radius p < obstacleBottom cv
        then (True, Pass)
      else (False, Pass))"

definition checkPowerUpCollision :: "player \<Rightarrow> powerUp \<Rightarrow> bool" where
  "checkPowerUpCollision p u \<longleftrightarrow>
     sqrt ((p_x p - (u_x u + 15))\<^sup>2 + (p_y p - u_y u)\<^sup>2) < radius p + 15"

subsection \<open>One frame: \<^verbatim>\<open>gameLoop\<close> (lines 351-994)\<close>

text \<open>Scrolling background offset (lines 363-366).\<close>

definition updateBackground :: "canvas \<Rightarrow> session \<Rightarrow> session" where
  "updateBackground cv s =
     (let s1 = s\<lparr>backgroundOffset := backgroundOffset s + 1 / 2\<rparr>
      in if backgroundOffset s1 > width cv then s1\<lparr>backgroundOffset := 0\<rparr> else s1)"

text \<open>Gravity and the ground line (lines 526-538), speed (lines 580-587) and level (line 590).\<close>

definition updatePhysics :: "canvas \<Rightarrow> session \<Rightarrow> session" where
  "updatePhysics cv s =
     (let p = player s;
          gravityMultiplier = 1;
          p1 = p\<lparr>vy := vy p + PLAYER_GRAVITY * gravityMultiplier\<rparr>;
          p2 = p1\<lparr>p_y := p_y p1 + vy p1 * gravityMultiplier\<rparr>;
          groundY = height cv - 20 - radius p2;
          p3 = (if p_y p2 > groundY
                then p2\<lparr>p_y := groundY, vy := 0, isJumping := False, jumpCount := 0\<rparr>
                else p2)
      in s\<lparr>player := p3\<rparr>)"

definition currentSpeed :: "session \<Rightarrow> real" where
  "currentSpeed s =
     min (OBSTACLE_BASE_SPEED * (1 + real_of_int (score s div 100) * SPEED_INCREASE_RATE) * 1)
         (OBSTACLE_BASE_SPEED * MAX_SPEED_MULTIPLIER)"

definition updateLevel :: "session \<Rightarrow> session" where
  "updateLevel s = s\<lparr>level := score s div 100 + 1\<rparr>"

text \<open>
  The check at the end of the obstacle callback (lines 751-767): an obstacle that is marked \<open>passed\<close>, has
  gone behind the player by more than 10 pixels and has not rolled yet rolls once for a
  colour change, if the player has its colour at that moment.
\<close>

definition colorChangeCheck :: "env \<Rightarrow> session \<Rightarrow> obstacle \<Rightarrow> session \<times> obstacle" where
  "colorChangeCheck e s ob =
     (let p = player s in
      if passed ob \<and> o_x ob + OBSTACLE_WIDTH < p_x p - radius p - 10 \<and> \<not> colorChanged ob
      then
        (let s1 = (if p_color p = o_color ob
                   then (let randomChance = \<lfloor>mathRandom e s * 10\<rfloor> + 1;
                             s0 = called s
                         in if randomChance \<le> 4
                            then s0\<lparr>colorChangeOnNextObstacle := True\<rparr> else s0)
                   else s)
         in (s1, ob\<lparr>colorChanged := True\<rparr>))
      else (s, ob))"

text \<open>
  The callback of \<^verbatim>\<open>obstacles.forEach\<close> (lines 593-768). The \<^verbatim>\<open>return\<close> of the game-over
  branch leaves the callback only: the colour-change check of this obstacle is skipped, and
  the loop goes on with the next obstacle. The timeout that the branch sets (alert, reset,
  next frame) is an event of its own, see \<open>reachable\<close> below.
\<close>

definition obstacleStep ::
  "env \<Rightarrow> canvas \<Rightarrow> real \<Rightarrow> session \<Rightarrow> obstacle \<Rightarrow> session \<times> obstacle" where
  "obstacleStep e cv speed s ob0 =
     (let ob = ob0\<lparr>o_x := o_x ob0 - speed\<rparr>;
          p = player s;
          collision = checkCollision p ob cv
      in
      if fst collision \<and> snd collision = Pass \<and> p_color p = o_color ob then
        (if \<not> passed ob then
           (let baseScore = (if o_type ob = Bonus then 20 else if o_type ob = Tall then 15
                             else 10);
                comboBonus = (combo s div 5) * 5;
                totalScore = baseScore + comboBonus;
                s1 = s\<lparr>score := score s + totalScore\<rparr>;
                s2 = s1\<lparr>combo := combo s1 + 1\<rparr>;
                s3 = s2\<lparr>comboTimer := COMBO_TIMEOUT\<rparr>;
                ob1 = ob\<lparr>passed := True\<rparr>;
                s4 = createParticles e (o_x ob1 + 15)
                       (obstacleTop cv ob1 + obstacleHeight ob1 / 2) (o_color ob1) 10 s3
            in colorChangeCheck e s4 ob1)
         else colorChangeCheck e s ob)
      else if fst collision \<and> snd collision = Pass \<and> p_color p \<noteq> o_color ob then
        (if invincible p \<le> 0 then
           (if shield p > 0 then
              (let s1 = s\<lparr>player := p\<lparr>shield := 0\<rparr>\<rparr>;
                   s2 = createParticles e (p_x p) (p_y p) ''#00d2d3'' 12 s1;
                   s3 = s2\<lparr>combo := 0\<rparr>;
                   s4 = s3\<lparr>comboTimer := 0\<rparr>
               in if \<not> passed ob
                  then colorChangeCheck e (s4\<lparr>score := score s4 + 1\<rparr>) (ob\<lparr>passed := True\<rparr>)
                  else colorChangeCheck e s4 ob)
            else
              (let p1 = p\<lparr>lives := lives p - 1\<rparr>;
                   p2 = p1\<lparr>invincible := 120\<rparr>;
                   s1 = s\<lparr>player := p2\<rparr>;
                   s2 = createParticles e (p_x p2) (p_y p2) ''#ff4757'' 15 s1;
                   s3 = s2\<lparr>combo := 0\<rparr>;
                   s4 = s3\<lparr>comboTimer := 0\<rparr>
               in if lives (player s4) \<le> 0
                  then
                    (let s5 = s4\<lparr>isGameOver := True\<rparr>;
                         s6 = (if score s5 > bestScore s5
                               then saveBestScore e (score s5) (s5\<lparr>bestScore := score s5\<rparr>)
                               else s5)
                     in (s6, ob))
                  else colorChangeCheck e s4 ob))
         else colorChangeCheck e s ob)
      else if snd collision = Jump \<and> o_x ob < p_x p \<and> o_x ob + OBSTACLE_WIDTH > p_x p then
        (if \<not> passed ob then
           (let baseScore = (if o_type ob = Tall then 2 else 1);
                s1 = s\<lparr>score := score s + baseScore\<rparr>
            in colorChangeCheck e s1 (ob\<lparr>passed := True\<rparr>))
         else colorChangeCheck e s ob)
      else colorChangeCheck e s ob)"

text \<open>\<^verbatim>\<open>obstacles.forEach\<close>: the obstacles in spawn order, the state threaded through.\<close>

fun obstaclesForEach ::
  "env \<Rightarrow> canvas \<Rightarrow> real \<Rightarrow> session \<Rightarrow> obstacle list \<Rightarrow> session \<times> obstacle list" where
  "obstaclesForEach e cv speed s [] = (s, [])"
| "obstaclesForEach e cv speed s (ob # obs) =
     (let (s1, ob1) = obstacleStep e cv speed s ob;
          (s2, obs2) = obstaclesForEach e cv speed s1 obs
      in (s2, ob1 # obs2))"

text \<open>The callback of \<^verbatim>\<open>powerUps.forEach\<close> (lines 771-860).\<close>

definition powerUpStep :: "env \<Rightarrow> real \<Rightarrow> session \<Rightarrow> powerUp \<Rightarrow> session \<times> powerUp" where
  "powerUpStep e speed s u0 =
     (let u = u0\<lparr>u_x := u_x u0 - speed\<rparr> in
      if checkPowerUpCollision (player s) u \<and> \<not> collected u then
        (let u1 = u\<lparr>collected := True\<rparr>;
             s1 = createParticles e (u_x u1 + 15) (u_y u1) ''#ffa502'' 15 s;
             p = player s1
         in (case u_type u1 of
               ShieldItem \<Rightarrow> (s1\<lparr>player := p\<lparr>shield := POWERUP_DURATION\<rparr>\<rparr>, u1)
             | BonusItem \<Rightarrow> (s1\<lparr>score := score s1 + 50\<rparr>, u1)
             | LifeItem \<Rightarrow>
                 ((if lives p < 3 then s1\<lparr>player := p\<lparr>lives := lives p + 1\<rparr>\<rparr> else s1), u1)
             | JumpBoostItem \<Rightarrow> (s1\<lparr>player := p\<lparr>jumpBoost := POWERUP_DURATION\<rparr>\<rparr>, u1)))
      else (s, u))"

fun powerUpsForEach ::
  "env \<Rightarrow> real \<Rightarrow> session \<Rightarrow> powerUp list \<Rightarrow> session \<times> powerUp list" where
  "powerUpsForEach e speed s [] = (s, [])"
| "powerUpsForEach e speed s (u # us) =
     (let (s1, u1) = powerUpStep e speed s u;
          (s2, us2) = powerUpsForEach e speed s1 us
      in (s2, u1 # us2))"

text \<open>
  \<^verbatim>\<open>particles.forEach\<close> (lines 863-880) ages each particle and splices a dead one out of the array it is
  iterating over: the particle that follows a removed one moves into its index and is not
  visited in this frame.
\<close>

definition ageParticle :: "particle \<Rightarrow> particle" where
  "ageParticle q =
     (let q1 = q\<lparr>q_x := q_x q + q_vx q\<rparr>;
          q2 = q1\<lparr>q_y := q_y q1 + q_vy q1\<rparr>;
          q3 = q2\<lparr>q_vy := q_vy q2 + 1 / 10\<rparr>
      in q3\<lparr>life := life q3 - 1\<rparr>)"

fun particlesForEach :: "particle list \<Rightarrow> particle list" where
  "particlesForEach [] = []"
| "particlesForEach [q] = (if life (ageParticle q) \<le> 0 then [] else [ageParticle q])"
| "particlesForEach (q # r # qs) =
     (if life (ageParticle q) \<le> 0 then r # particlesForEach qs
      else ageParticle q # particlesForEach (r # qs))"

text \<open>Removal of what has left the screen or has been collected (lines 883-888).\<close>

definition prune :: "session \<Rightarrow> session" where
  "prune s =
     (let s1 = s\<lparr>obstacles := filter (\<lambda>obs. o_x obs > - OBSTACLE_WIDTH) (obstacles s)\<rparr>
      in s1\<lparr>powerUps := filter (\<lambda>u. u_x u > - 30 \<and> \<not> collected u) (powerUps s1)\<rparr>)"

text \<open>
  Spawning (lines 203-253 and 891-908). \<^verbatim>\<open>Math.floor(gameState.level * 2)\<close> rounds a number
  that is an integer already. The power-up spawner calls \<^verbatim>\<open>Math.random\<close> only when its counter
  is above 200.
\<close>

definition spawnObstacle :: "env \<Rightarrow> canvas \<Rightarrow> session \<Rightarrow> session" where
  "spawnObstacle e cv s =
     (let color = COLORS ! nat \<lfloor>mathRandom e s * real (length COLORS)\<rfloor>;
          s1 = called s;
          rand = mathRandom e s1;
          s2 = called s1;
          type = (if rand < 1 / 10 then Bonus else if rand < 25 / 100 then Tall else Normal)
      in s2\<lparr>obstacles := obstacles s2 @
              [\<lparr>o_x = width cv, o_color = color, passed = False, o_type = type,
                colorChanged = False\<rparr>]\<rparr>)"

definition regularTypes :: "powerup_type list" where
  "regularTypes = [ShieldItem, BonusItem, JumpBoostItem]"

definition spawnPowerUp :: "env \<Rightarrow> canvas \<Rightarrow> session \<Rightarrow> session" where
  "spawnPowerUp e cv s =
     (let r = mathRandom e s;
          s1 = called s;
          (type, s2) =
             (if r < POWERUP_LIFE_SPAWN_CHANCE then (LifeItem, s1)
              else (regularTypes ! nat \<lfloor>mathRandom e s1 * real (length regularTypes)\<rfloor>,
                    called s1))
      in s2\<lparr>powerUps := powerUps s2 @
              [\<lparr>u_x = width cv, u_y = 350, u_type = type, collected = False\<rparr>]\<rparr>)"

definition spawnThreshold :: "int \<Rightarrow> int" where
  "spawnThreshold lv = OBSTACLE_SPAWN_INTERVAL - lv * 2"

definition obstacleSpawner :: "env \<Rightarrow> canvas \<Rightarrow> session \<Rightarrow> session" where
  "obstacleSpawner e cv s =
     (let s1 = s\<lparr>spawn := spawn s + 1\<rparr>
      in if spawn s1 > spawnThreshold (level s1)
         then (spawnObstacle e cv s1)\<lparr>spawn := 0\<rparr> else s1)"

definition powerUpSpawner :: "env \<Rightarrow> canvas \<Rightarrow> session \<Rightarrow> session" where
  "powerUpSpawner e cv s =
     (let s1 = s\<lparr>powerUpSpawn := powerUpSpawn s + 1\<rparr>
      in if powerUpSpawn s1 > 200
         then (if mathRandom e s1 < POWERUP_SPAWN_CHANCE
               then (spawnPowerUp e cv (called s1))\<lparr>powerUpSpawn := 0\<rparr>
               else called s1)
         else s1)"

text \<open>The pending colour change of the player (lines 911-920).\<close>

definition availableColors :: "string \<Rightarrow> string list" where
  "availableColors c = filter (\<lambda>color. color \<noteq> c) COLORS"

definition applyColorChange :: "env \<Rightarrow> session \<Rightarrow> session" where
  "applyColorChange e s =
     (if colorChangeOnNextObstacle s then
        (let p = player s;
             av = availableColors (p_color p);
             newColor = av ! nat \<lfloor>mathRandom e s * real (length av)\<rfloor>;
             s1 = called s;
             p1 = p\<lparr>p_color := newColor\<rparr>;
             s2 = s1\<lparr>player := p1\<rparr>;
             s3 = createParticles e (p_x p1) (p_y p1) (p_color p1) 6 s2
         in s3\<lparr>colorChangeOnNextObstacle := False\<rparr>)
      else s)"

text \<open>Timers of the power-ups (lines 923-925) and of the combo (lines 928-932).\<close>

definition decreaseTimers :: "session \<Rightarrow> session" where
  "decreaseTimers s =
     (let p = player s;
          p1 = (if shield p > 0 then p\<lparr>shield := shield p - 1\<rparr> else p);
          p2 = (if jumpBoost p1 > 0 then p1\<lparr>jumpBoost := jumpBoost p1 - 1\<rparr> else p1);
          p3 = (if invincible p2 > 0 then p2\<lparr>invincible := invincible p2 - 1\<rparr> else p2)
      in s\<lparr>player := p3\<rparr>)"

definition comboTimerStep :: "session \<Rightarrow> session" where
  "comboTimerStep s =
     (if comboTimer s > 0 then s\<lparr>comboTimer := comboTimer s - 1\<rparr> else s\<lparr>combo := 0\<rparr>)"

text \<open>
  The frame. On the title screen only the background moves. Otherwise the phases run in
  the order of the source; the obstacle speed is computed from the score at the start of
  the frame.
\<close>

definition obstaclesPhase :: "env \<Rightarrow> canvas \<Rightarrow> real \<Rightarrow> session \<Rightarrow> session" where
  "obstaclesPhase e cv speed s =
     (let (s1, obs) = obstaclesForEach e cv speed s (obstacles s) in s1\<lparr>obstacles := obs\<rparr>)"

definition powerUpsPhase :: "env \<Rightarrow> real \<Rightarrow> session \<Rightarrow> session" where
  "powerUpsPhase e speed s =
     (let (s1, us) = powerUpsForEach e speed s (powerUps s) in s1\<lparr>powerUps := us\<rparr>)"

definition particlesPhase :: "session \<Rightarrow> session" where
  "particlesPhase s = s\<lparr>particles := particlesForEach (particles s)\<rparr>"

definition gameLoop :: "env \<Rightarrow> canvas \<Rightarrow> session \<Rightarrow> session" where
  "gameLoop e cv s =
     (let s0 = updateBackground cv s in
      if \<not> gameStarted s0 then s0
      else
        (let s1 = updatePhysics cv s0;
             speed = currentSpeed s1;
             s2 = updateLevel s1;
             s3 = obstaclesPhase e cv speed s2;
             s4 = powerUpsPhase e speed s3;
             s5 = particlesPhase s4;
             s6 = prune s5;
             s7 = obstacleSpawner e cv s6;
             s8 = powerUpSpawner e cv s7;
             s9 = applyColorChange e s8;
             s10 = decreaseTimers s9
         in comboTimerStep s10))"



subsection \<open>Invariants, runs and example states\<close>

text \<open>
  The base score of a same-colour pass-through, by obstacle type (the three values of
  \<^verbatim>\<open>baseScore\<close> in the callback).
\<close>

definition baseScoreOf :: "obstacle_type \<Rightarrow> int" where
  "baseScoreOf t = (case t of Normal \<Rightarrow> 10 | Tall \<Rightarrow> 15 | Bonus \<Rightarrow> 20)"

text \<open>
  Invariants used in the proofs. \<open>loopInv\<close> holds throughout \<^verbatim>\<open>obstacles.forEach\<close>: the player has
  a life left, or has just lost the last one, which set the invincibility timer and the
  game-over flag. \<open>hitOnce s0 s\<close> says that since \<open>s0\<close> at most one life was lost, and that
  the player is invincible if one was.
\<close>

definition lifeInv :: "session \<Rightarrow> bool" where
  "lifeInv s \<longleftrightarrow> lives (player s) \<le> 3 \<and>
     (1 \<le> lives (player s) \<or>
      (0 \<le> lives (player s) \<and> isGameOver s))"

definition loopInv :: "session \<Rightarrow> bool" where
  "loopInv s \<longleftrightarrow> lives (player s) \<le> 3 \<and>
     (1 \<le> lives (player s) \<or>
      (lives (player s) = 0 \<and> 0 < invincible (player s) \<and> isGameOver s))"

definition hitOnce :: "session \<Rightarrow> session \<Rightarrow> bool" where
  "hitOnce s0 s \<longleftrightarrow> lives (player s) = lives (player s0) \<or>
     (lives (player s) = lives (player s0) - 1 \<and> 0 < invincible (player s))"

text \<open>
  The invariant of the states between events.
\<close>

definition tickInv :: "session \<Rightarrow> bool" where
  "tickInv s \<longleftrightarrow> 0 \<le> lives (player s) \<and> lives (player s) \<le> 3
     \<and> 0 \<le> jumpCount (player s) \<and> jumpCount (player s) \<le> 2
     \<and> (\<not> isGameOver s \<longrightarrow> 1 \<le> lives (player s))
     \<and> (\<not> gameStarted s \<longrightarrow> jumpCount (player s) = 0)"

text \<open>
  The state after the mount effect has called \<^verbatim>\<open>resetGame()\<close> for the first time, with \<open>st\<close>
  in local storage. The effect does so before it registers a listener or requests a frame,
  so no handler ever sees \<^verbatim>\<open>gameStateRef.current\<close> unset.
\<close>

definition mount :: "env \<Rightarrow> int option \<Rightarrow> session" where
  "mount e st =
     game_state.extend (createInitialGameState e st) (session.fields 0 0 0 st 0)"

text \<open>
  The states the component can be in between two events. A jump trigger (key, touch or
  click) and a reset (the mount effect runs again, or the timeout of the game-over branch
  fires) can come at any time. A frame runs only while the game is not over: \<^verbatim>\<open>gameLoop\<close>
  requests the next frame under \<^verbatim>\<open>if (!gameState.isGameOver)\<close>, and after a game over the
  next request is made by the timeout, after \<^verbatim>\<open>resetGame()\<close>. Each event may see another
  canvas size and other random numbers.
\<close>

inductive reachable :: "session \<Rightarrow> bool" where
  mounted: "reachable (mount e st)"
| reset: "reachable s \<Longrightarrow> reachable (resetGame e s)"
| jump: "reachable s \<Longrightarrow> reachable (handleJump e s)"
| frame: "reachable s \<Longrightarrow> \<not> isGameOver s \<Longrightarrow> reachable (gameLoop e cv s)"

text \<open>
  Example values: a browser with local storage in which \<^verbatim>\<open>Math.random\<close> always returns
  0.1, the desktop canvas, a started session with the player standing on the ground line
  (\<open>y = 600 - 20 - 20\<close>), an obstacle of the player's colour and one of another colour, both
  about to overlap the player.
\<close>

definition demoEnv :: env where
  "demoEnv = \<lparr>windowDefined = True, isClient = True, random = (\<lambda>n. rnd (1 / 10))\<rparr>"

definition demoCanvas :: canvas where
  "demoCanvas = \<lparr>width = 400, height = 600\<rparr>"

definition onGround :: session where
  "onGround = (mount demoEnv None)
     \<lparr>player := (player (mount demoEnv None))\<lparr>p_y := 560\<rparr>, gameStarted := True\<rparr>"

definition redObstacle :: obstacle where
  "redObstacle = \<lparr>o_x = 103, o_color = ''#ff4757'', passed = False, o_type = Normal,
     colorChanged = False\<rparr>"

definition greenObstacle :: obstacle where
  "greenObstacle = \<lparr>o_x = 103, o_color = ''#2ed573'', passed = False, o_type = Normal,
     colorChanged = False\<rparr>"

text \<open>
  Start of the game and two jumps.
\<close>

definition twoJumps :: session where
  "twoJumps = handleJump demoEnv (handleJump demoEnv (handleJump demoEnv (mount demoEnv None)))"

text \<open>
  A player whose lower edge is 3 pixels below the top of a normal obstacle.
\<close>

definition grazing :: player where
  "grazing = (player onGround)\<lparr>p_y := 503\<rparr>"

text \<open>
  The life of one obstacle: the callback runs on it once per frame, in whatever state the
  session is in at that frame. The result lists, frame by frame, what the callback added
  to the score.
\<close>

fun obstacleLife ::
  "env \<Rightarrow> (canvas \<times> real \<times> session) list \<Rightarrow> obstacle \<Rightarrow> int list \<times> obstacle" where
  "obstacleLife e [] ob = ([], ob)"
| "obstacleLife e ((cv, speed, s) # fs) ob =
     (let (s1, ob1) = obstacleStep e cv speed s ob;
          (as, ob2) = obstacleLife e fs ob1
      in ((score s1 - score s) # as, ob2))"

text \<open>
  The state of a frame after \<^verbatim>\<open>obstacles.forEach\<close>, and the state in which the spawner runs.
\<close>

definition afterObstacles :: "env \<Rightarrow> canvas \<Rightarrow> session \<Rightarrow> session" where
  "afterObstacles e cv s =
     (let s1 = updatePhysics cv (updateBackground cv s)
      in obstaclesPhase e cv (currentSpeed s1) (updateLevel s1))"

definition beforeSpawn :: "env \<Rightarrow> canvas \<Rightarrow> session \<Rightarrow> session" where
  "beforeSpawn e cv s =
     prune (particlesPhase
       (powerUpsPhase e (currentSpeed (updatePhysics cv (updateBackground cv s)))
          (afterObstacles e cv s)))"

text \<open>
  The two kinds of pass-through hit that change the combo: a same-colour hit on an obstacle
  not yet passed, and a different-colour hit while the player is not invincible (a damage
  event, with or without shield).
\<close>

definition qualifyingPass :: "canvas \<Rightarrow> real \<Rightarrow> session \<Rightarrow> obstacle \<Rightarrow> bool" where
  "qualifyingPass cv speed s ob \<longleftrightarrow>
     checkCollision (player s) (ob\<lparr>o_x := o_x ob - speed\<rparr>) cv = (True, Pass)
     \<and> p_color (player s) = o_color ob \<and> \<not> passed ob"

definition damageEvent :: "canvas \<Rightarrow> real \<Rightarrow> session \<Rightarrow> obstacle \<Rightarrow> bool" where
  "damageEvent cv speed s ob \<longleftrightarrow>
     checkCollision (player s) (ob\<lparr>o_x := o_x ob - speed\<rparr>) cv = (True, Pass)
     \<and> p_color (player s) \<noteq> o_color ob \<and> invincible (player s) \<le> 0"

text \<open>
  A damage event happens somewhere in \<^verbatim>\<open>obstacles.forEach\<close>.
\<close>

fun damageInLoop :: "env \<Rightarrow> canvas \<Rightarrow> real \<Rightarrow> session \<Rightarrow> obstacle list \<Rightarrow> bool" where
  "damageInLoop e cv speed s [] = False"
| "damageInLoop e cv speed s (ob # obs) =
     (damageEvent cv speed s ob
      \<or> damageInLoop e cv speed (fst (obstacleStep e cv speed s ob)) obs)"

text \<open>
  A session at score 3400, that is, level 35, with the spawn counter at 0.
\<close>

definition lateGame :: session where
  "lateGame = onGround\<lparr>score := 3400\<rparr>"

text \<open>
  A damage event happens in the frame that starts in \<open>s\<close>.
\<close>

definition damageInFrame :: "env \<Rightarrow> canvas \<Rightarrow> session \<Rightarrow> bool" where
  "damageInFrame e cv s =
     (let s1 = updatePhysics cv (updateBackground cv s)
      in damageInLoop e cv (currentSpeed s1) (updateLevel s1) (obstacles s))"

text \<open>
  A combo of 3 whose timer has one frame left; no obstacle on screen.
\<close>

definition comboRunning :: session where
  "comboRunning = onGround\<lparr>combo := 3, comboTimer := 1\<rparr>"

text \<open>
  \<open>n\<close> consecutive frames.
\<close>

fun gameFrames :: "env \<Rightarrow> canvas \<Rightarrow> nat \<Rightarrow> session \<Rightarrow> session" where
  "gameFrames e cv 0 s = s"
| "gameFrames e cv (Suc n) s = gameFrames e cv n (gameLoop e cv s)"

text \<open>
  A session in mid-game: the player at the top of a double jump (\<open>y = 400\<close>, no vertical
  speed), and one obstacle of the player's colour, not yet passed, under the player.
\<close>

definition midJump :: session where
  "midJump =
     \<lparr>player = \<lparr>p_x = 100, p_y = 400, radius = 20, vy = 0, p_color = ''#ff4757'',
                 isJumping = True, jumpCount = 2, shield = 0, jumpBoost = 0, lives = 3,
                 invincible = 0\<rparr>,
      obstacles = [\<lparr>o_x = 95, o_color = ''#ff4757'', passed = False, o_type = Normal,
                    colorChanged = False\<rparr>],
      powerUps = [], particles = [], score = 0, combo = 0, comboTimer = 0, bestScore = 0,
      level = 1, isGameOver = False, colorChangeOnNextObstacle = False,
      backgroundOffset = 0, gameStarted = True, spawn = 0, colorChange = 0,
      powerUpSpawn = 0, localStorage = None, randomCalls = 0\<rparr>"

text \<open>
  The obstacle speed of the frame that starts in \<open>s\<close>, and the state in which
  \<^verbatim>\<open>obstacles.forEach\<close> starts.
\<close>

definition frameSpeed :: "canvas \<Rightarrow> session \<Rightarrow> real" where
  "frameSpeed cv s = currentSpeed (updatePhysics cv (updateBackground cv s))"

definition frameStart :: "canvas \<Rightarrow> session \<Rightarrow> session" where
  "frameStart cv s = updateLevel (updatePhysics cv (updateBackground cv s))"

text \<open>
  The frame at one obstacle: the state in which its callback starts when the obstacles
  \<open>pre\<close> come before it, the result of its callback, and the run of the loop over the
  obstacles \<open>post\<close> that follow.
\<close>

definition atCallback :: "env \<Rightarrow> canvas \<Rightarrow> session \<Rightarrow> obstacle list \<Rightarrow> session" where
  "atCallback e cv s pre = fst (obstaclesForEach e cv (frameSpeed cv s) (frameStart cv s) pre)"

definition afterCallback ::
  "env \<Rightarrow> canvas \<Rightarrow> session \<Rightarrow> obstacle list \<Rightarrow> obstacle \<Rightarrow> session \<times> obstacle" where
  "afterCallback e cv s pre ob = obstacleStep e cv (frameSpeed cv s) (atCallback e cv s pre) ob"

definition restOfLoop ::
  "env \<Rightarrow> canvas \<Rightarrow> session \<Rightarrow> obstacle list \<Rightarrow> obstacle \<Rightarrow> obstacle list
   \<Rightarrow> session \<times> obstacle list" where
  "restOfLoop e cv s pre ob post =
     obstaclesForEach e cv (frameSpeed cv s) (fst (afterCallback e cv s pre ob)) post"

text \<open>
  A session in mid-game, given by shield timer, lives, score, best score and obstacles: the
  player stands on the ground line of the desktop canvas, no power-up is on screen.
\<close>

definition standing :: "int \<Rightarrow> int \<Rightarrow> int \<Rightarrow> int \<Rightarrow> obstacle list \<Rightarrow> session" where
  "standing sh lv sc bs obs =
     \<lparr>player = \<lparr>p_x = 100, p_y = 560, radius = 20, vy = 0, p_color = ''#ff4757'',
                 isJumping = False, jumpCount = 0, shield = sh, jumpBoost = 0, lives = lv,
                 invincible = 0\<rparr>,
      obstacles = obs, powerUps = [], particles = [], score = sc, combo = 0, comboTimer = 0,
      bestScore = bs, level = 1, isGameOver = False, colorChangeOnNextObstacle = False,
      backgroundOffset = 0, gameStarted = True, spawn = 0, colorChange = 0,
      powerUpSpawn = 0, localStorage = None, randomCalls = 0\<rparr>"

section \<open>Properties\<close>

subsection \<open>What particles and the colour check leave alone\<close>

lemma pushParticle_frame:
  "pushParticle e x y c n i s = s\<lparr>particles := particles (pushParticle e x y c n i s),
      randomCalls := randomCalls (pushParticle e x y c n i s)\<rparr>"
  by (simp add: pushParticle_def called_def Let_def)

lemma fold_pushParticle_frame:
  "\<exists>P R. fold (pushParticle e x y c n) is s = s\<lparr>particles := P, randomCalls := R\<rparr>"
proof (induction "is" arbitrary: s)
  case Nil
  have "s = s\<lparr>particles := particles s, randomCalls := randomCalls s\<rparr>" by simp
  then show ?case by (metis fold_simps(1))
next
  case (Cons i "is")
  obtain P R where h: "fold (pushParticle e x y c n) is (pushParticle e x y c n i s)
      = (pushParticle e x y c n i s)\<lparr>particles := P, randomCalls := R\<rparr>"
    using Cons.IH by blast
  have "(pushParticle e x y c n i s)\<lparr>particles := P, randomCalls := R\<rparr>
      = s\<lparr>particles := P, randomCalls := R\<rparr>"
    by (subst pushParticle_frame) simp
  with h show ?case by auto
qed

lemma createParticles_frame:
  "\<exists>P R. createParticles e x y c n s = s\<lparr>particles := P, randomCalls := R\<rparr>"
  unfolding createParticles_def by (rule fold_pushParticle_frame)

lemma createParticles_fields [simp]:
  "player (createParticles e x y c n s) = player s"
  "obstacles (createParticles e x y c n s) = obstacles s"
  "powerUps (createParticles e x y c n s) = powerUps s"
  "score (createParticles e x y c n s) = score s"
  "combo (createParticles e x y c n s) = combo s"
  "comboTimer (createParticles e x y c n s) = comboTimer s"
  "bestScore (createParticles e x y c n s) = bestScore s"
  "level (createParticles e x y c n s) = level s"
  "isGameOver (createParticles e x y c n s) = isGameOver s"
  "colorChangeOnNextObstacle (createParticles e x y c n s) = colorChangeOnNextObstacle s"
  "backgroundOffset (createParticles e x y c n s) = backgroundOffset s"
  "gameStarted (createParticles e x y c n s) = gameStarted s"
  "spawn (createParticles e x y c n s) = spawn s"
  "colorChange (createParticles e x y c n s) = colorChange s"
  "powerUpSpawn (createParticles e x y c n s) = powerUpSpawn s"
  "localStorage (createParticles e x y c n s) = localStorage s"
  using createParticles_frame [of e x y c n s] by auto

lemma colorChangeCheck_fields [simp]:
  "player (fst (colorChangeCheck e s ob)) = player s"
  "score (fst (colorChangeCheck e s ob)) = score s"
  "combo (fst (colorChangeCheck e s ob)) = combo s"
  "comboTimer (fst (colorChangeCheck e s ob)) = comboTimer s"
  "bestScore (fst (colorChangeCheck e s ob)) = bestScore s"
  "level (fst (colorChangeCheck e s ob)) = level s"
  "isGameOver (fst (colorChangeCheck e s ob)) = isGameOver s"
  "gameStarted (fst (colorChangeCheck e s ob)) = gameStarted s"
  "spawn (fst (colorChangeCheck e s ob)) = spawn s"
  "powerUpSpawn (fst (colorChangeCheck e s ob)) = powerUpSpawn s"
  "localStorage (fst (colorChangeCheck e s ob)) = localStorage s"
  "obstacles (fst (colorChangeCheck e s ob)) = obstacles s"
  "powerUps (fst (colorChangeCheck e s ob)) = powerUps s"
  "particles (fst (colorChangeCheck e s ob)) = particles s"
  "passed (snd (colorChangeCheck e s ob)) = passed ob"
  "o_x (snd (colorChangeCheck e s ob)) = o_x ob"
  "o_color (snd (colorChangeCheck e s ob)) = o_color ob"
  "o_type (snd (colorChangeCheck e s ob)) = o_type ob"
  by (simp_all add: colorChangeCheck_def called_def Let_def)

lemma colorChangeCheck_overlap:
  "xOverlap (player s) ob \<Longrightarrow> colorChangeCheck e s ob = (s, ob)"
  by (simp add: colorChangeCheck_def xOverlap_def Let_def)

lemma hit_overlap: "fst (checkCollision p ob cv) \<Longrightarrow> xOverlap p ob"
  by (simp add: checkCollision_def split: if_splits)

subsection \<open>The obstacle callback\<close>

text \<open>
  Claim C10. A pass-through hit on an obstacle of another colour while the invincibility
  timer is positive changes nothing: the callback returns the session as it was, and the
  obstacle only moved.
\<close>

theorem invincible_hit_no_effect:
  assumes "invincible (player s) > 0"
    and "checkCollision (player s) (ob\<lparr>o_x := o_x ob - speed\<rparr>) cv = (True, Pass)"
    and "p_color (player s) \<noteq> o_color ob"
  shows "obstacleStep e cv speed s ob = (s, ob\<lparr>o_x := o_x ob - speed\<rparr>)"
proof -
  have "xOverlap (player s) (ob\<lparr>o_x := o_x ob - speed\<rparr>)"
    using assms(2) hit_overlap [of "player s" "ob\<lparr>o_x := o_x ob - speed\<rparr>" cv] by simp
  then show ?thesis
    using assms by (simp add: obstacleStep_def Let_def colorChangeCheck_overlap)
qed

lemma callback_same_color_pass:
  assumes "checkCollision (player s) (ob\<lparr>o_x := o_x ob - speed\<rparr>) cv = (True, Pass)"
    and "p_color (player s) = o_color ob"
    and "\<not> passed ob"
  shows "score (fst (obstacleStep e cv speed s ob))
           = score s + baseScoreOf (o_type ob) + (combo s div 5) * 5
       \<and> combo (fst (obstacleStep e cv speed s ob)) = combo s + 1
       \<and> comboTimer (fst (obstacleStep e cv speed s ob)) = COMBO_TIMEOUT
       \<and> passed (snd (obstacleStep e cv speed s ob))"
  using assms
  by (cases "o_type ob") (simp_all add: obstacleStep_def Let_def baseScoreOf_def)

lemma callback_shielded_hit:
  assumes "shield (player s) > 0"
    and "invincible (player s) \<le> 0"
    and "checkCollision (player s) (ob\<lparr>o_x := o_x ob - speed\<rparr>) cv = (True, Pass)"
    and "p_color (player s) \<noteq> o_color ob"
  shows "shield (player (fst (obstacleStep e cv speed s ob))) = 0
       \<and> lives (player (fst (obstacleStep e cv speed s ob))) = lives (player s)
       \<and> combo (fst (obstacleStep e cv speed s ob)) = 0
       \<and> comboTimer (fst (obstacleStep e cv speed s ob)) = 0
       \<and> score (fst (obstacleStep e cv speed s ob)) = (if passed ob then score s else score s + 1)
       \<and> passed (snd (obstacleStep e cv speed s ob))"
  using assms by (simp add: obstacleStep_def Let_def)

lemma callback_last_life_hit:
  assumes "lives (player s) = 1"
    and "shield (player s) \<le> 0"
    and "invincible (player s) \<le> 0"
    and "checkCollision (player s) (ob\<lparr>o_x := o_x ob - speed\<rparr>) cv = (True, Pass)"
    and "p_color (player s) \<noteq> o_color ob"
  shows "lives (player (fst (obstacleStep e cv speed s ob))) = 0
       \<and> isGameOver (fst (obstacleStep e cv speed s ob))
       \<and> bestScore (fst (obstacleStep e cv speed s ob))
            = (if score s > bestScore s then score s else bestScore s)
       \<and> localStorage (fst (obstacleStep e cv speed s ob))
            = (if score s > bestScore s then localStorage (saveBestScore e (score s) s)
               else localStorage s)"
  using assms by (simp add: obstacleStep_def Let_def saveBestScore_def)

lemma obstacle_band_height: "obstacleTop cv ob + 5 < obstacleBottom cv"
  by (simp add: obstacleTop_def obstacleBottom_def obstacleHeight_def OBSTACLE_HEIGHT_def)

lemma grazing_is_jump:
  assumes "xOverlap p ob" "0 \<le> radius p"
    "obstacleTop cv ob < p_y p + radius p" "p_y p + radius p \<le> obstacleTop cv ob + 5"
  shows "p_y p - radius p < obstacleBottom cv \<and> checkCollision p ob cv = (False, Jump)"
proof -
  have "p_y p - radius p \<le> p_y p + radius p" using assms(2) by simp
  then have "p_y p - radius p < obstacleBottom cv"
    using assms(4) obstacle_band_height [of cv ob] by linarith
  then show ?thesis using assms(1,4) by (simp add: checkCollision_def)
qed

text \<open>
  Claim C6. \<^verbatim>\<open>checkCollision\<close> follows the order of the cases: without horizontal overlap
  the result is \<^verbatim>\<open>pass\<close> without hit; with overlap and the lower edge of the player at most 5
  pixels below the obstacle top the result is \<^verbatim>\<open>jump\<close> without hit, also when the player's
  disc reaches into the band of the obstacle, as it does whenever the lower edge is below the
  top; otherwise, if the vertical span of the player
  meets the band, the result is \<^verbatim>\<open>pass\<close> with hit. Hence a hit means overlap, lower edge
  more than 5 pixels below the top, and upper edge above the bottom. The type
  \<^verbatim>\<open>collision\<close> is never returned.
\<close>

theorem collision_classification_order:
  "(\<not> xOverlap p ob \<longrightarrow> checkCollision p ob cv = (False, Pass))
 \<and> (xOverlap p ob \<and> p_y p + radius p \<le> obstacleTop cv ob + 5
      \<longrightarrow> checkCollision p ob cv = (False, Jump))
 \<and> (xOverlap p ob \<and> 0 \<le> radius p \<and> obstacleTop cv ob < p_y p + radius p
      \<and> p_y p + radius p \<le> obstacleTop cv ob + 5
      \<longrightarrow> p_y p - radius p < obstacleBottom cv \<and> checkCollision p ob cv = (False, Jump))
 \<and> (xOverlap p ob \<and> \<not> p_y p + radius p \<le> obstacleTop cv ob + 5
      \<and> p_y p + radius p > obstacleTop cv ob \<and> p_y p - radius p < obstacleBottom cv
      \<longrightarrow> checkCollision p ob cv = (True, Pass))
 \<and> (fst (checkCollision p ob cv) \<longleftrightarrow>
       xOverlap p ob \<and> p_y p + radius p > obstacleTop cv ob + 5
       \<and> p_y p - radius p < obstacleBottom cv)
 \<and> snd (checkCollision p ob cv) \<noteq> Collision"
proof -
  have order: "(\<not> xOverlap p ob \<longrightarrow> checkCollision p ob cv = (False, Pass))
      \<and> (xOverlap p ob \<and> p_y p + radius p \<le> obstacleTop cv ob + 5
           \<longrightarrow> checkCollision p ob cv = (False, Jump))
      \<and> (xOverlap p ob \<and> \<not> p_y p + radius p \<le> obstacleTop cv ob + 5
           \<and> p_y p + radius p > obstacleTop cv ob \<and> p_y p - radius p < obstacleBottom cv
           \<longrightarrow> checkCollision p ob cv = (True, Pass))"
    by (simp add: checkCollision_def)
  have hit: "fst (checkCollision p ob cv) \<longleftrightarrow>
      xOverlap p ob \<and> p_y p + radius p > obstacleTop cv ob + 5
      \<and> p_y p - radius p < obstacleBottom cv"
    by (auto simp add: checkCollision_def)
  have ty: "snd (checkCollision p ob cv) \<noteq> Collision"
    by (simp add: checkCollision_def)
  show ?thesis using order hit ty grazing_is_jump [of p ob cv] by blast
qed

subsection \<open>The loops: what they leave alone, and the lives\<close>

lemma obstacleStep_fields [simp]:
  "jumpCount (player (fst (obstacleStep e cv speed s ob))) = jumpCount (player s)"
  "p_color (player (fst (obstacleStep e cv speed s ob))) = p_color (player s)"
  "level (fst (obstacleStep e cv speed s ob)) = level s"
  "spawn (fst (obstacleStep e cv speed s ob)) = spawn s"
  "powerUpSpawn (fst (obstacleStep e cv speed s ob)) = powerUpSpawn s"
  "gameStarted (fst (obstacleStep e cv speed s ob)) = gameStarted s"
  "obstacles (fst (obstacleStep e cv speed s ob)) = obstacles s"
  "powerUps (fst (obstacleStep e cv speed s ob)) = powerUps s"
  by (simp_all add: obstacleStep_def Let_def saveBestScore_def)

lemma obstacleStep_obstacle [simp]:
  "o_x (snd (obstacleStep e cv speed s ob)) = o_x ob - speed"
  "o_color (snd (obstacleStep e cv speed s ob)) = o_color ob"
  "o_type (snd (obstacleStep e cv speed s ob)) = o_type ob"
  by (simp_all add: obstacleStep_def Let_def)

lemma obstacleStep_loopInv:
  "loopInv s \<Longrightarrow> loopInv (fst (obstacleStep e cv speed s ob))"
  by (auto simp add: loopInv_def obstacleStep_def Let_def saveBestScore_def)

lemma obstaclesForEach_loopInv:
  "loopInv s \<Longrightarrow> loopInv (fst (obstaclesForEach e cv speed s obs))"
proof (induction obs arbitrary: s)
  case Nil
  then show ?case by simp
next
  case (Cons ob obs)
  have "loopInv (fst (obstacleStep e cv speed s ob))"
    using Cons.prems by (rule obstacleStep_loopInv)
  then have "loopInv (fst (obstaclesForEach e cv speed (fst (obstacleStep e cv speed s ob)) obs))"
    by (rule Cons.IH)
  then show ?case by (simp add: split_beta Let_def)
qed

lemma obstaclesForEach_fields [simp]:
  "jumpCount (player (fst (obstaclesForEach e cv speed s obs))) = jumpCount (player s)"
  "level (fst (obstaclesForEach e cv speed s obs)) = level s"
  "spawn (fst (obstaclesForEach e cv speed s obs)) = spawn s"
  "gameStarted (fst (obstaclesForEach e cv speed s obs)) = gameStarted s"
  by (induction obs arbitrary: s) (simp_all add: split_beta Let_def)

lemma obstacleStep_hitOnce:
  "hitOnce s0 s \<Longrightarrow> hitOnce s0 (fst (obstacleStep e cv speed s ob))"
  by (auto simp add: hitOnce_def obstacleStep_def Let_def saveBestScore_def)

lemma obstaclesForEach_hitOnce:
  "hitOnce s0 s \<Longrightarrow> hitOnce s0 (fst (obstaclesForEach e cv speed s obs))"
proof (induction obs arbitrary: s)
  case Nil
  then show ?case by simp
next
  case (Cons ob obs)
  have "hitOnce s0 (fst (obstacleStep e cv speed s ob))"
    using Cons.prems by (rule obstacleStep_hitOnce)
  then have "hitOnce s0 (fst (obstaclesForEach e cv speed (fst (obstacleStep e cv speed s ob)) obs))"
    by (rule Cons.IH)
  then show ?case by (simp add: split_beta Let_def)
qed

lemma powerUpStep_fields [simp]:
  "jumpCount (player (fst (powerUpStep e speed s u))) = jumpCount (player s)"
  "isGameOver (fst (powerUpStep e speed s u)) = isGameOver s"
  "level (fst (powerUpStep e speed s u)) = level s"
  "spawn (fst (powerUpStep e speed s u)) = spawn s"
  "combo (fst (powerUpStep e speed s u)) = combo s"
  "comboTimer (fst (powerUpStep e speed s u)) = comboTimer s"
  "obstacles (fst (powerUpStep e speed s u)) = obstacles s"
  "gameStarted (fst (powerUpStep e speed s u)) = gameStarted s"
  by (simp_all add: powerUpStep_def Let_def split: powerup_type.splits)

lemma powerUpStep_lifeInv:
  "lifeInv s \<Longrightarrow> lifeInv (fst (powerUpStep e speed s u))"
  by (auto simp add: lifeInv_def powerUpStep_def Let_def split: powerup_type.splits)

lemma powerUpsForEach_fields [simp]:
  "jumpCount (player (fst (powerUpsForEach e speed s us))) = jumpCount (player s)"
  "isGameOver (fst (powerUpsForEach e speed s us)) = isGameOver s"
  "level (fst (powerUpsForEach e speed s us)) = level s"
  "spawn (fst (powerUpsForEach e speed s us)) = spawn s"
  "combo (fst (powerUpsForEach e speed s us)) = combo s"
  "comboTimer (fst (powerUpsForEach e speed s us)) = comboTimer s"
  "obstacles (fst (powerUpsForEach e speed s us)) = obstacles s"
  "gameStarted (fst (powerUpsForEach e speed s us)) = gameStarted s"
  by (induction us arbitrary: s) (simp_all add: split_beta Let_def)

lemma powerUpsForEach_lifeInv:
  "lifeInv s \<Longrightarrow> lifeInv (fst (powerUpsForEach e speed s us))"
proof (induction us arbitrary: s)
  case Nil
  then show ?case by simp
next
  case (Cons u us)
  have "lifeInv (fst (powerUpStep e speed s u))"
    using Cons.prems by (rule powerUpStep_lifeInv)
  then have "lifeInv (fst (powerUpsForEach e speed (fst (powerUpStep e speed s u)) us))"
    by (rule Cons.IH)
  then show ?case by (simp add: split_beta Let_def)
qed

subsection \<open>What the other parts of the frame leave alone\<close>

lemma updateBackground_fields [simp]:
  "player (updateBackground cv s) = player s"
  "obstacles (updateBackground cv s) = obstacles s"
  "powerUps (updateBackground cv s) = powerUps s"
  "score (updateBackground cv s) = score s"
  "combo (updateBackground cv s) = combo s"
  "comboTimer (updateBackground cv s) = comboTimer s"
  "level (updateBackground cv s) = level s"
  "isGameOver (updateBackground cv s) = isGameOver s"
  "gameStarted (updateBackground cv s) = gameStarted s"
  "spawn (updateBackground cv s) = spawn s"
  by (simp_all add: updateBackground_def Let_def)

lemma updatePhysics_fields [simp]:
  "lives (player (updatePhysics cv s)) = lives (player s)"
  "invincible (player (updatePhysics cv s)) = invincible (player s)"
  "shield (player (updatePhysics cv s)) = shield (player s)"
  "p_color (player (updatePhysics cv s)) = p_color (player s)"
  "obstacles (updatePhysics cv s) = obstacles s"
  "powerUps (updatePhysics cv s) = powerUps s"
  "score (updatePhysics cv s) = score s"
  "combo (updatePhysics cv s) = combo s"
  "comboTimer (updatePhysics cv s) = comboTimer s"
  "level (updatePhysics cv s) = level s"
  "isGameOver (updatePhysics cv s) = isGameOver s"
  "gameStarted (updatePhysics cv s) = gameStarted s"
  "spawn (updatePhysics cv s) = spawn s"
  by (simp_all add: updatePhysics_def Let_def)

lemma updatePhysics_jumpCount:
  "jumpCount (player (updatePhysics cv s)) = jumpCount (player s)
   \<or> jumpCount (player (updatePhysics cv s)) = 0"
  by (simp add: updatePhysics_def Let_def)

lemma updateLevel_fields [simp]:
  "player (updateLevel s) = player s"
  "obstacles (updateLevel s) = obstacles s"
  "powerUps (updateLevel s) = powerUps s"
  "score (updateLevel s) = score s"
  "combo (updateLevel s) = combo s"
  "comboTimer (updateLevel s) = comboTimer s"
  "level (updateLevel s) = score s div 100 + 1"
  "isGameOver (updateLevel s) = isGameOver s"
  "gameStarted (updateLevel s) = gameStarted s"
  "spawn (updateLevel s) = spawn s"
  by (simp_all add: updateLevel_def)

lemma particlesPhase_fields [simp]:
  "player (particlesPhase s) = player s"
  "obstacles (particlesPhase s) = obstacles s"
  "powerUps (particlesPhase s) = powerUps s"
  "score (particlesPhase s) = score s"
  "combo (particlesPhase s) = combo s"
  "comboTimer (particlesPhase s) = comboTimer s"
  "level (particlesPhase s) = level s"
  "isGameOver (particlesPhase s) = isGameOver s"
  "gameStarted (particlesPhase s) = gameStarted s"
  "spawn (particlesPhase s) = spawn s"
  by (simp_all add: particlesPhase_def)

lemma prune_fields [simp]:
  "player (prune s) = player s"
  "obstacles (prune s) = filter (\<lambda>obs. o_x obs > - OBSTACLE_WIDTH) (obstacles s)"
  "score (prune s) = score s"
  "combo (prune s) = combo s"
  "comboTimer (prune s) = comboTimer s"
  "level (prune s) = level s"
  "isGameOver (prune s) = isGameOver s"
  "gameStarted (prune s) = gameStarted s"
  "spawn (prune s) = spawn s"
  by (simp_all add: prune_def Let_def)

lemma spawnObstacle_fields [simp]:
  "player (spawnObstacle e cv s) = player s"
  "score (spawnObstacle e cv s) = score s"
  "combo (spawnObstacle e cv s) = combo s"
  "comboTimer (spawnObstacle e cv s) = comboTimer s"
  "level (spawnObstacle e cv s) = level s"
  "isGameOver (spawnObstacle e cv s) = isGameOver s"
  "gameStarted (spawnObstacle e cv s) = gameStarted s"
  "spawn (spawnObstacle e cv s) = spawn s"
  by (simp_all add: spawnObstacle_def called_def Let_def)

lemma obstacleSpawner_fields [simp]:
  "player (obstacleSpawner e cv s) = player s"
  "score (obstacleSpawner e cv s) = score s"
  "combo (obstacleSpawner e cv s) = combo s"
  "comboTimer (obstacleSpawner e cv s) = comboTimer s"
  "level (obstacleSpawner e cv s) = level s"
  "isGameOver (obstacleSpawner e cv s) = isGameOver s"
  "gameStarted (obstacleSpawner e cv s) = gameStarted s"
  by (simp_all add: obstacleSpawner_def Let_def)

lemma spawnPowerUp_fields [simp]:
  "player (spawnPowerUp e cv s) = player s"
  "obstacles (spawnPowerUp e cv s) = obstacles s"
  "score (spawnPowerUp e cv s) = score s"
  "combo (spawnPowerUp e cv s) = combo s"
  "comboTimer (spawnPowerUp e cv s) = comboTimer s"
  "level (spawnPowerUp e cv s) = level s"
  "isGameOver (spawnPowerUp e cv s) = isGameOver s"
  "gameStarted (spawnPowerUp e cv s) = gameStarted s"
  "spawn (spawnPowerUp e cv s) = spawn s"
  by (simp_all add: spawnPowerUp_def called_def Let_def split_beta)

lemma powerUpSpawner_fields [simp]:
  "player (powerUpSpawner e cv s) = player s"
  "obstacles (powerUpSpawner e cv s) = obstacles s"
  "score (powerUpSpawner e cv s) = score s"
  "combo (powerUpSpawner e cv s) = combo s"
  "comboTimer (powerUpSpawner e cv s) = comboTimer s"
  "level (powerUpSpawner e cv s) = level s"
  "isGameOver (powerUpSpawner e cv s) = isGameOver s"
  "gameStarted (powerUpSpawner e cv s) = gameStarted s"
  "spawn (powerUpSpawner e cv s) = spawn s"
  by (simp_all add: powerUpSpawner_def called_def Let_def)

lemma applyColorChange_fields [simp]:
  "lives (player (applyColorChange e s)) = lives (player s)"
  "jumpCount (player (applyColorChange e s)) = jumpCount (player s)"
  "obstacles (applyColorChange e s) = obstacles s"
  "score (applyColorChange e s) = score s"
  "combo (applyColorChange e s) = combo s"
  "comboTimer (applyColorChange e s) = comboTimer s"
  "level (applyColorChange e s) = level s"
  "isGameOver (applyColorChange e s) = isGameOver s"
  "gameStarted (applyColorChange e s) = gameStarted s"
  "spawn (applyColorChange e s) = spawn s"
  by (simp_all add: applyColorChange_def called_def Let_def)

lemma decreaseTimers_fields [simp]:
  "lives (player (decreaseTimers s)) = lives (player s)"
  "jumpCount (player (decreaseTimers s)) = jumpCount (player s)"
  "p_color (player (decreaseTimers s)) = p_color (player s)"
  "obstacles (decreaseTimers s) = obstacles s"
  "score (decreaseTimers s) = score s"
  "combo (decreaseTimers s) = combo s"
  "comboTimer (decreaseTimers s) = comboTimer s"
  "level (decreaseTimers s) = level s"
  "isGameOver (decreaseTimers s) = isGameOver s"
  "gameStarted (decreaseTimers s) = gameStarted s"
  "spawn (decreaseTimers s) = spawn s"
  by (simp_all add: decreaseTimers_def Let_def)

lemma comboTimerStep_fields [simp]:
  "player (comboTimerStep s) = player s"
  "obstacles (comboTimerStep s) = obstacles s"
  "score (comboTimerStep s) = score s"
  "level (comboTimerStep s) = level s"
  "isGameOver (comboTimerStep s) = isGameOver s"
  "gameStarted (comboTimerStep s) = gameStarted s"
  "spawn (comboTimerStep s) = spawn s"
  by (simp_all add: comboTimerStep_def)

subsection \<open>Lives and jump count in the reachable states\<close>

lemma obstaclesPhase_fields [simp]:
  "jumpCount (player (obstaclesPhase e cv speed s)) = jumpCount (player s)"
  "level (obstaclesPhase e cv speed s) = level s"
  "spawn (obstaclesPhase e cv speed s) = spawn s"
  "gameStarted (obstaclesPhase e cv speed s) = gameStarted s"
  by (simp_all add: obstaclesPhase_def split_beta)

lemma obstaclesPhase_loopInv:
  "loopInv s \<Longrightarrow> loopInv (obstaclesPhase e cv speed s)"
  using obstaclesForEach_loopInv [of s e cv speed "obstacles s"]
  by (simp add: obstaclesPhase_def split_beta loopInv_def)

lemma powerUpsPhase_fields [simp]:
  "jumpCount (player (powerUpsPhase e speed s)) = jumpCount (player s)"
  "isGameOver (powerUpsPhase e speed s) = isGameOver s"
  "level (powerUpsPhase e speed s) = level s"
  "spawn (powerUpsPhase e speed s) = spawn s"
  "combo (powerUpsPhase e speed s) = combo s"
  "comboTimer (powerUpsPhase e speed s) = comboTimer s"
  "obstacles (powerUpsPhase e speed s) = obstacles s"
  "gameStarted (powerUpsPhase e speed s) = gameStarted s"
  by (simp_all add: powerUpsPhase_def split_beta)

lemma powerUpsPhase_lifeInv:
  "lifeInv s \<Longrightarrow> lifeInv (powerUpsPhase e speed s)"
  using powerUpsForEach_lifeInv [of s e speed "powerUps s"]
  by (simp add: powerUpsPhase_def split_beta lifeInv_def)

lemma loopInv_lifeInv: "loopInv s \<Longrightarrow> lifeInv s"
  by (auto simp add: loopInv_def lifeInv_def)

lemma gameLoop_lifeInv:
  assumes "lifeInv s" "\<not> isGameOver s"
  shows "lifeInv (gameLoop e cv s)"
proof (cases "gameStarted s")
  case False
  then show ?thesis using assms by (simp add: gameLoop_def Let_def lifeInv_def)
next
  case True
  let ?s2 = "updateLevel (updatePhysics cv (updateBackground cv s))"
  let ?sp = "currentSpeed (updatePhysics cv (updateBackground cv s))"
  have "loopInv ?s2" using assms by (simp add: loopInv_def lifeInv_def)
  then have "loopInv (obstaclesPhase e cv ?sp ?s2)" by (rule obstaclesPhase_loopInv)
  then have "lifeInv (obstaclesPhase e cv ?sp ?s2)" by (rule loopInv_lifeInv)
  then have "lifeInv (powerUpsPhase e ?sp (obstaclesPhase e cv ?sp ?s2))"
    by (rule powerUpsPhase_lifeInv)
  then show ?thesis using True by (simp add: gameLoop_def Let_def lifeInv_def)
qed

lemma gameLoop_jumpCount:
  "jumpCount (player (gameLoop e cv s)) = jumpCount (player s)
   \<or> jumpCount (player (gameLoop e cv s)) = 0"
  using updatePhysics_jumpCount [of cv "updateBackground cv s"]
  by (simp add: gameLoop_def Let_def)

lemma handleJump_tickInv: "tickInv s \<Longrightarrow> tickInv (handleJump e s)"
  by (auto simp add: tickInv_def handleJump_def startGame_def Let_def)

lemma resetGame_tickInv: "tickInv (resetGame e s)"
  by (simp add: tickInv_def resetGame_def createInitialGameState_def game_state.defs session.defs)

lemma mount_tickInv: "tickInv (mount e st)"
  by (simp add: tickInv_def mount_def createInitialGameState_def game_state.defs session.defs)

lemma tickInv_lifeInv: "tickInv s \<Longrightarrow> lifeInv s"
  by (auto simp add: tickInv_def lifeInv_def)

lemma gameLoop_started: "gameStarted (gameLoop e cv s) = gameStarted s"
  by (simp add: gameLoop_def Let_def)

lemma gameLoop_tickInv:
  assumes "tickInv s" "\<not> isGameOver s"
  shows "tickInv (gameLoop e cv s)"
proof -
  have "lifeInv (gameLoop e cv s)"
    using assms tickInv_lifeInv gameLoop_lifeInv by blast
  moreover have "0 \<le> jumpCount (player (gameLoop e cv s))
      \<and> jumpCount (player (gameLoop e cv s)) \<le> 2
      \<and> (\<not> gameStarted s \<longrightarrow> jumpCount (player (gameLoop e cv s)) = 0)"
    using gameLoop_jumpCount [of e cv s] assms(1) by (auto simp add: tickInv_def)
  ultimately show ?thesis by (auto simp add: tickInv_def lifeInv_def gameLoop_started)
qed

lemma reachable_tickInv: "reachable s \<Longrightarrow> tickInv s"
proof (induction rule: reachable.induct)
  case (mounted e st)
  show ?case by (rule mount_tickInv)
next
  case (reset s e)
  show ?case by (rule resetGame_tickInv)
next
  case (jump s e)
  then show ?case by (simp add: handleJump_tickInv)
next
  case (frame s e cv)
  then show ?case by (simp add: gameLoop_tickInv)
qed

lemma handleJump_exhausted:
  "gameStarted s \<Longrightarrow> jumpCount (player s) = 2 \<Longrightarrow> handleJump e s = s"
  by (simp add: handleJump_def)

lemma powerUpStep_life_cap:
  "lives (player s) = 3 \<Longrightarrow> u_type u = LifeItem
   \<Longrightarrow> lives (player (fst (powerUpStep e speed s u))) = 3"
  by (simp add: powerUpStep_def Let_def)

lemma hitOnce_refl: "hitOnce s s"
  by (simp add: hitOnce_def)

lemma obstaclesForEach_lives:
  "lives (player s) - 1 \<le> lives (player (fst (obstaclesForEach e cv speed s obs)))
   \<and> lives (player (fst (obstaclesForEach e cv speed s obs))) \<le> lives (player s)"
  using obstaclesForEach_hitOnce [OF hitOnce_refl, of s e cv speed obs]
  by (auto simp add: hitOnce_def)

text \<open>
  Claim C1. In every reachable state the player's lives are between 0 and 3 and the jump
  count is between 0 and 2. Moreover, in such a state a jump trigger with jump count 2 changes
  nothing, a life power-up collected at 3 lives leaves 3 lives,
  and, while the game is not over, no run of \<^verbatim>\<open>obstacles.forEach\<close> takes the lives below 0:
  the first hit sets the invincibility timer, which stops further hits of the same frame.
\<close>

theorem lives_and_jump_count_bounded:
  assumes "reachable s"
  shows "0 \<le> lives (player s) \<and> lives (player s) \<le> 3
       \<and> 0 \<le> jumpCount (player s) \<and> jumpCount (player s) \<le> 2
       \<and> (jumpCount (player s) = 2 \<longrightarrow> handleJump e s = s)
       \<and> (lives (player s) = 3 \<and> u_type u = LifeItem
            \<longrightarrow> lives (player (fst (powerUpStep e speed s u))) = 3)
       \<and> (\<not> isGameOver s
            \<longrightarrow> 0 \<le> lives (player (fst (obstaclesForEach e cv speed s obs))))"
proof -
  have inv: "tickInv s" using assms by (rule reachable_tickInv)
  have "\<not> isGameOver s \<longrightarrow> 0 \<le> lives (player (fst (obstaclesForEach e cv speed s obs)))"
    using inv obstaclesForEach_lives [of s e cv speed obs] by (auto simp add: tickInv_def)
  moreover have "jumpCount (player s) = 2 \<longrightarrow> handleJump e s = s"
    using inv handleJump_exhausted [of s e] by (auto simp add: tickInv_def)
  ultimately show ?thesis
    using inv powerUpStep_life_cap [of s u e speed]
    by (simp add: tickInv_def)
qed

subsection \<open>Examples of the callback\<close>

lemmas demo_defs = demoEnv_def demoCanvas_def onGround_def redObstacle_def greenObstacle_def
  mount_def createInitialGameState_def getBestScore_def COLORS_def PLAYER_X_def PLAYER_Y_def
  PLAYER_RADIUS_def game_state.defs session.defs

lemmas geometry_defs = checkCollision_def xOverlap_def obstacleTop_def obstacleBottom_def
  obstacleHeight_def OBSTACLE_WIDTH_def OBSTACLE_HEIGHT_def

lemma onGround_red_hit:
  "checkCollision (player onGround) (redObstacle\<lparr>o_x := o_x redObstacle - 3\<rparr>) demoCanvas
     = (True, Pass)"
  by (simp add: demo_defs geometry_defs)

lemma onGround_green_hit:
  "checkCollision (player onGround) (greenObstacle\<lparr>o_x := o_x greenObstacle - 3\<rparr>) demoCanvas
     = (True, Pass)"
  by (simp add: demo_defs geometry_defs)

theorem invincible_hit_no_effect_witness:
  "invincible (player (onGround\<lparr>player := (player onGround)\<lparr>invincible := 60\<rparr>\<rparr>)) > 0
   \<and> checkCollision (player (onGround\<lparr>player := (player onGround)\<lparr>invincible := 60\<rparr>\<rparr>))
        (greenObstacle\<lparr>o_x := o_x greenObstacle - 3\<rparr>) demoCanvas = (True, Pass)
   \<and> p_color (player (onGround\<lparr>player := (player onGround)\<lparr>invincible := 60\<rparr>\<rparr>))
        \<noteq> o_color greenObstacle
   \<and> obstacleStep demoEnv demoCanvas 3
        (onGround\<lparr>player := (player onGround)\<lparr>invincible := 60\<rparr>\<rparr>) greenObstacle
      = (onGround\<lparr>player := (player onGround)\<lparr>invincible := 60\<rparr>\<rparr>,
         greenObstacle\<lparr>o_x := 100\<rparr>)"
proof -
  let ?s = "onGround\<lparr>player := (player onGround)\<lparr>invincible := 60\<rparr>\<rparr>"
  have h1: "invincible (player ?s) > 0" by simp
  have h2: "checkCollision (player ?s) (greenObstacle\<lparr>o_x := o_x greenObstacle - 3\<rparr>)
      demoCanvas = (True, Pass)"
    by (simp add: demo_defs geometry_defs)
  have h3: "p_color (player ?s) \<noteq> o_color greenObstacle" by (simp add: demo_defs)
  have v: "o_x greenObstacle - 3 = 100" by (simp add: demo_defs)
  show ?thesis
    using invincible_hit_no_effect [OF h1 h2 h3, of demoEnv] h1 h2 h3 v by simp
qed

theorem collision_classification_order_witness:
  "\<not> xOverlap grazing (redObstacle\<lparr>o_x := 200\<rparr>)
   \<and> checkCollision grazing (redObstacle\<lparr>o_x := 200\<rparr>) demoCanvas = (False, Pass)
   \<and> xOverlap grazing (redObstacle\<lparr>o_x := 100\<rparr>)
   \<and> p_y grazing + radius grazing \<le> obstacleTop demoCanvas (redObstacle\<lparr>o_x := 100\<rparr>) + 5
   \<and> p_y grazing + radius grazing > obstacleTop demoCanvas (redObstacle\<lparr>o_x := 100\<rparr>)
   \<and> p_y grazing - radius grazing < obstacleBottom demoCanvas
   \<and> checkCollision grazing (redObstacle\<lparr>o_x := 100\<rparr>) demoCanvas = (False, Jump)
   \<and> xOverlap (player onGround) (redObstacle\<lparr>o_x := 100\<rparr>)
   \<and> \<not> p_y (player onGround) + radius (player onGround)
         \<le> obstacleTop demoCanvas (redObstacle\<lparr>o_x := 100\<rparr>) + 5
   \<and> checkCollision (player onGround) (redObstacle\<lparr>o_x := 100\<rparr>) demoCanvas = (True, Pass)"
proof -
  have far: "\<not> xOverlap grazing (redObstacle\<lparr>o_x := 200\<rparr>)"
    by (simp add: grazing_def demo_defs geometry_defs)
  have h: "xOverlap grazing (redObstacle\<lparr>o_x := 100\<rparr>)"
    "p_y grazing + radius grazing \<le> obstacleTop demoCanvas (redObstacle\<lparr>o_x := 100\<rparr>) + 5"
    "p_y grazing + radius grazing > obstacleTop demoCanvas (redObstacle\<lparr>o_x := 100\<rparr>)"
    "p_y grazing - radius grazing < obstacleBottom demoCanvas"
    by (simp_all add: grazing_def demo_defs geometry_defs)
  have g: "xOverlap (player onGround) (redObstacle\<lparr>o_x := 100\<rparr>)"
    "\<not> p_y (player onGround) + radius (player onGround)
        \<le> obstacleTop demoCanvas (redObstacle\<lparr>o_x := 100\<rparr>) + 5"
    "p_y (player onGround) + radius (player onGround)
        > obstacleTop demoCanvas (redObstacle\<lparr>o_x := 100\<rparr>)"
    "p_y (player onGround) - radius (player onGround) < obstacleBottom demoCanvas"
    by (simp_all add: demo_defs geometry_defs)
  show ?thesis
    using collision_classification_order [of grazing "redObstacle\<lparr>o_x := 200\<rparr>" demoCanvas]
      collision_classification_order [of grazing "redObstacle\<lparr>o_x := 100\<rparr>" demoCanvas]
      collision_classification_order [of "player onGround" "redObstacle\<lparr>o_x := 100\<rparr>" demoCanvas] far h g
    by simp
qed

lemma twoJumps_facts:
  "gameStarted twoJumps" "jumpCount (player twoJumps) = 2" "lives (player twoJumps) = 3"
  "\<not> isGameOver twoJumps"
  by (simp_all add: twoJumps_def handleJump_def startGame_def Let_def demo_defs)

lemma twoJumps_reachable: "reachable twoJumps"
  unfolding twoJumps_def by (intro reachable.jump reachable.mounted)

theorem lives_and_jump_count_bounded_witness:
  "reachable twoJumps \<and> jumpCount (player twoJumps) = 2
   \<and> lives (player twoJumps) = 3 \<and> \<not> isGameOver twoJumps
   \<and> handleJump demoEnv twoJumps = twoJumps
   \<and> lives (player (fst (powerUpStep demoEnv 3 twoJumps
        \<lparr>u_x = 400, u_y = 350, u_type = LifeItem, collected = False\<rparr>))) = 3
   \<and> 0 \<le> lives (player (fst (obstaclesForEach demoEnv demoCanvas 3 twoJumps
        [greenObstacle, greenObstacle])))"
  using lives_and_jump_count_bounded [OF twoJumps_reachable, of demoEnv
      "\<lparr>u_x = 400, u_y = 350, u_type = LifeItem, collected = False\<rparr>" 3 demoCanvas
      "[greenObstacle, greenObstacle]"]
    twoJumps_facts twoJumps_reachable
  by simp

subsection \<open>The passed flag\<close>

lemma obstacleStep_passed_latch:
  "passed ob \<Longrightarrow> passed (snd (obstacleStep e cv speed s ob))
     \<and> score (fst (obstacleStep e cv speed s ob)) = score s"
  by (simp add: obstacleStep_def Let_def saveBestScore_def)

lemma obstacleStep_award_marks:
  "score (fst (obstacleStep e cv speed s ob)) \<noteq> score s
   \<Longrightarrow> \<not> passed ob \<and> passed (snd (obstacleStep e cv speed s ob))"
  by (auto simp add: obstacleStep_def Let_def saveBestScore_def split: if_splits)

lemma obstacleLife_passed:
  "passed ob \<Longrightarrow> passed (snd (obstacleLife e fs ob))
     \<and> (\<forall>a \<in> set (fst (obstacleLife e fs ob)). a = 0)"
proof (induction fs arbitrary: ob)
  case Nil
  then show ?case by simp
next
  case (Cons f fs)
  obtain cv speed s where f: "f = (cv, speed, s)" by (cases f) auto
  have step: "passed (snd (obstacleStep e cv speed s ob))"
    "score (fst (obstacleStep e cv speed s ob)) = score s"
    using obstacleStep_passed_latch [OF Cons.prems] by auto
  from Cons.IH [OF step(1)] step(2) show ?case
    by (simp add: f split_beta Let_def)
qed

lemma obstacleLife_single_award:
  "length (filter (\<lambda>a. a \<noteq> 0) (fst (obstacleLife e fs ob))) \<le> 1"
proof (induction fs arbitrary: ob)
  case Nil
  then show ?case by simp
next
  case (Cons f fs)
  obtain cv speed s where f: "f = (cv, speed, s)" by (cases f) auto
  let ?r = "obstacleStep e cv speed s ob"
  show ?case
  proof (cases "score (fst ?r) = score s")
    case True
    then show ?thesis using Cons.IH [of "snd ?r"] by (simp add: f split_beta Let_def)
  next
    case False
    then have "passed (snd ?r)" using obstacleStep_award_marks by blast
    then have "\<forall>a \<in> set (fst (obstacleLife e fs (snd ?r))). a = 0"
      using obstacleLife_passed by blast
    then have "filter (\<lambda>a. a \<noteq> 0) (fst (obstacleLife e fs (snd ?r))) = []"
      by (simp add: filter_empty_conv)
    then show ?thesis by (simp add: f split_beta Let_def)
  qed
qed

lemma obstaclesForEach_passed_latch:
  "list_all2 (\<lambda>a b. passed a \<longrightarrow> passed b) obs (snd (obstaclesForEach e cv speed s obs))"
proof (induction obs arbitrary: s)
  case Nil
  then show ?case by simp
next
  case (Cons ob obs)
  have "passed ob \<longrightarrow> passed (snd (obstacleStep e cv speed s ob))"
    using obstacleStep_passed_latch by blast
  then show ?case using Cons.IH by (simp add: split_beta Let_def)
qed

text \<open>
  Claim C5. The passed flag is a latch, and an obstacle changes the score at most once: a
  callback on a passed obstacle leaves it passed and the score as it is; a callback that
  changes the score finds the obstacle not passed and leaves it passed; the loop over the
  obstacles of one frame keeps every passed flag that is set; and over any sequence of
  frames of one obstacle at most one frame changes the score.
\<close>

theorem passed_latch_single_award:
  "(passed ob \<longrightarrow> passed (snd (obstacleStep e cv speed s ob))
      \<and> score (fst (obstacleStep e cv speed s ob)) = score s)
 \<and> (score (fst (obstacleStep e cv speed s ob)) \<noteq> score s
      \<longrightarrow> \<not> passed ob \<and> passed (snd (obstacleStep e cv speed s ob)))
 \<and> list_all2 (\<lambda>a b. passed a \<longrightarrow> passed b) obs (snd (obstaclesForEach e cv speed s obs))
 \<and> (passed ob \<longrightarrow> passed (snd (obstacleLife e fs ob)))
 \<and> length (filter (\<lambda>a. a \<noteq> 0) (fst (obstacleLife e fs ob))) \<le> 1"
  using obstacleStep_passed_latch [of ob e cv speed s]
    obstacleStep_award_marks [of e cv speed s ob]
    obstaclesForEach_passed_latch [of obs e cv speed s]
    obstacleLife_passed [of ob e fs] obstacleLife_single_award [of e fs ob]
  by blast

lemma onGround_red_step:
  "score (fst (obstacleStep demoEnv demoCanvas 3 onGround redObstacle)) = 10"
  "passed (snd (obstacleStep demoEnv demoCanvas 3 onGround redObstacle))"
  using onGround_red_hit
  by (simp_all add: obstacleStep_def Let_def demo_defs)

theorem passed_latch_single_award_witness:
  "\<not> passed redObstacle
   \<and> obstacleLife demoEnv [(demoCanvas, 3, onGround), (demoCanvas, 3, onGround)] redObstacle
       = ([10, 0], snd (obstacleLife demoEnv
            [(demoCanvas, 3, onGround), (demoCanvas, 3, onGround)] redObstacle))
   \<and> passed (snd (obstacleLife demoEnv
            [(demoCanvas, 3, onGround), (demoCanvas, 3, onGround)] redObstacle))
   \<and> length (filter (\<lambda>a. a \<noteq> 0) (fst (obstacleLife demoEnv
            [(demoCanvas, 3, onGround), (demoCanvas, 3, onGround)] redObstacle))) \<le> 1"
proof -
  let ?r = "obstacleStep demoEnv demoCanvas 3 onGround redObstacle"
  have a: "score (fst ?r) \<noteq> score onGround"
    using onGround_red_step(1) by (simp add: demo_defs)
  have p: "\<not> passed redObstacle \<and> passed (snd ?r)"
    using passed_latch_single_award [of redObstacle demoEnv demoCanvas 3 onGround "[]" "[]"] a by blast
  have q: "passed (snd (obstacleStep demoEnv demoCanvas 3 onGround (snd ?r)))
      \<and> score (fst (obstacleStep demoEnv demoCanvas 3 onGround (snd ?r))) = score onGround"
    using passed_latch_single_award [of "snd ?r" demoEnv demoCanvas 3 onGround "[]" "[]"] p by blast
  have s0: "score onGround = 0" by (simp add: demo_defs)
  show ?thesis
    using p q onGround_red_step(1) s0
      passed_latch_single_award [of redObstacle demoEnv demoCanvas 3 onGround "[]"
          "[(demoCanvas, 3, onGround), (demoCanvas, 3, onGround)]"]
    by (simp add: split_beta Let_def)
qed

subsection \<open>Spawn cadence\<close>

lemma gameLoop_phases:
  "gameStarted s \<Longrightarrow> gameLoop e cv s =
     comboTimerStep (decreaseTimers (applyColorChange e
       (powerUpSpawner e cv (obstacleSpawner e cv (beforeSpawn e cv s)))))"
  by (simp add: gameLoop_def beforeSpawn_def afterObstacles_def Let_def)

lemma gameLoop_title:
  "\<not> gameStarted s \<Longrightarrow> gameLoop e cv s = updateBackground cv s"
  by (simp add: gameLoop_def Let_def)

lemma afterObstacles_fields [simp]:
  "level (afterObstacles e cv s) = score s div 100 + 1"
  "spawn (afterObstacles e cv s) = spawn s"
  "gameStarted (afterObstacles e cv s) = gameStarted s"
  by (simp_all add: afterObstacles_def Let_def)

lemma beforeSpawn_fields [simp]:
  "level (beforeSpawn e cv s) = score s div 100 + 1"
  "spawn (beforeSpawn e cv s) = spawn s"
  "combo (beforeSpawn e cv s) = combo (afterObstacles e cv s)"
  "comboTimer (beforeSpawn e cv s) = comboTimer (afterObstacles e cv s)"
  by (simp_all add: beforeSpawn_def)

lemma obstacleSpawner_spawn:
  "spawn (obstacleSpawner e cv s)
     = (if spawn s + 1 > spawnThreshold (level s) then 0 else spawn s + 1)"
  by (simp add: obstacleSpawner_def Let_def)

lemma obstacleSpawner_obstacles:
  "\<exists>ob. o_x ob = width cv \<and> \<not> passed ob \<and> \<not> colorChanged ob
     \<and> obstacles (obstacleSpawner e cv s)
         = obstacles s @ (if spawn s + 1 > spawnThreshold (level s) then [ob] else [])"
proof (cases "spawn s + 1 > spawnThreshold (level s)")
  case True
  then show ?thesis
    by (simp add: obstacleSpawner_def spawnObstacle_def called_def Let_def)
next
  case False
  have "o_x \<lparr>o_x = width cv, o_color = [], passed = False, o_type = Normal,
      colorChanged = False\<rparr> = width cv" by simp
  with False show ?thesis
    by (auto simp add: obstacleSpawner_def Let_def
        intro!: exI [of _ "\<lparr>o_x = width cv, o_color = [], passed = False, o_type = Normal,
          colorChanged = False\<rparr>"])
qed

lemma gameLoop_spawn:
  "gameStarted s \<Longrightarrow> spawn (gameLoop e cv s)
     = (if spawn s + 1 > spawnThreshold (score s div 100 + 1) then 0 else spawn s + 1)"
  by (simp add: gameLoop_phases obstacleSpawner_spawn)

lemma gameLoop_obstacles:
  assumes "gameStarted s"
  shows "\<exists>ob. o_x ob = width cv \<and> \<not> passed ob \<and> \<not> colorChanged ob
     \<and> obstacles (gameLoop e cv s)
         = obstacles (beforeSpawn e cv s)
           @ (if spawn s + 1 > spawnThreshold (score s div 100 + 1) then [ob] else [])"
  using obstacleSpawner_obstacles [of cv e "beforeSpawn e cv s"] assms
  by (simp add: gameLoop_phases)

lemma spawnThreshold_unbounded: "\<exists>lv \<ge> 1. spawnThreshold lv < b"
proof -
  have "spawnThreshold (max 1 (71 - b)) < b"
    by (simp add: spawnThreshold_def OBSTACLE_SPAWN_INTERVAL_def max_def)
  then show ?thesis by (metis max.cobounded1)
qed

lemma spawnThreshold_late: "35 \<le> lv \<Longrightarrow> spawnThreshold lv \<le> 0"
  by (simp add: spawnThreshold_def OBSTACLE_SPAWN_INTERVAL_def)

text \<open>
  Claim C8, as the code has it. In a frame of a started game the spawn counter is
  incremented, and exactly when the incremented counter exceeds \<^verbatim>\<open>SPAWN_INTERVAL\<close> minus twice
  the level of this frame (score div 100 + 1, from the score at the start of the frame) an
  obstacle is appended at the right edge of the canvas and the counter is set to 0. The
  threshold has no lower bound: whatever bound is proposed, some level is below it, and
  from score 3400 (level 35) on an obstacle is spawned in every frame.
\<close>

theorem spawn_cadence_no_floor:
  assumes "gameStarted s"
  shows "spawn (gameLoop e cv s)
           = (if spawn s + 1 > OBSTACLE_SPAWN_INTERVAL - 2 * (score s div 100 + 1) then 0
              else spawn s + 1)
       \<and> (\<exists>ob. o_x ob = width cv \<and> \<not> passed ob \<and> \<not> colorChanged ob
            \<and> obstacles (gameLoop e cv s)
                = obstacles (beforeSpawn e cv s)
                  @ (if spawn s + 1 > OBSTACLE_SPAWN_INTERVAL - 2 * (score s div 100 + 1)
                     then [ob] else []))
       \<and> (3400 \<le> score s \<and> 0 \<le> spawn s
            \<longrightarrow> spawn (gameLoop e cv s) = 0
              \<and> length (obstacles (gameLoop e cv s))
                  = length (obstacles (beforeSpawn e cv s)) + 1)
       \<and> (\<exists>lv \<ge> 1. spawnThreshold lv < b)"
proof -
  have th: "spawnThreshold (score s div 100 + 1)
      = OBSTACLE_SPAWN_INTERVAL - 2 * (score s div 100 + 1)"
    by (simp add: spawnThreshold_def)
  have late: "3400 \<le> score s \<and> 0 \<le> spawn s
      \<longrightarrow> spawn s + 1 > spawnThreshold (score s div 100 + 1)"
    using spawnThreshold_late [of "score s div 100 + 1"]
      zdiv_mono1 [of 3400 "score s" 100] by auto
  obtain ob where ob: "o_x ob = width cv" "\<not> passed ob" "\<not> colorChanged ob"
    "obstacles (gameLoop e cv s) = obstacles (beforeSpawn e cv s)
       @ (if spawn s + 1 > spawnThreshold (score s div 100 + 1) then [ob] else [])"
    using gameLoop_obstacles [OF assms, of cv e] by blast
  have c1: "spawn (gameLoop e cv s)
      = (if spawn s + 1 > OBSTACLE_SPAWN_INTERVAL - 2 * (score s div 100 + 1) then 0
         else spawn s + 1)"
    using gameLoop_spawn [OF assms, of e cv] th by simp
  have c2: "\<exists>ob. o_x ob = width cv \<and> \<not> passed ob \<and> \<not> colorChanged ob
      \<and> obstacles (gameLoop e cv s) = obstacles (beforeSpawn e cv s)
         @ (if spawn s + 1 > OBSTACLE_SPAWN_INTERVAL - 2 * (score s div 100 + 1)
            then [ob] else [])"
    using ob th by auto
  have c3: "3400 \<le> score s \<and> 0 \<le> spawn s
      \<longrightarrow> spawn (gameLoop e cv s) = 0
        \<and> length (obstacles (gameLoop e cv s)) = length (obstacles (beforeSpawn e cv s)) + 1"
    using late gameLoop_spawn [OF assms, of e cv] ob(4) by auto
  show ?thesis using c1 c2 c3 spawnThreshold_unbounded [of b] by blast
qed

lemma lateGame_facts:
  "gameStarted lateGame" "score lateGame = 3400" "spawn lateGame = 0"
  by (simp_all add: lateGame_def demo_defs)

theorem spawn_cadence_no_floor_witness:
  "gameStarted lateGame \<and> 3400 \<le> score lateGame \<and> 0 \<le> spawn lateGame
   \<and> spawn (gameLoop demoEnv demoCanvas lateGame) = 0
   \<and> length (obstacles (gameLoop demoEnv demoCanvas lateGame))
       = length (obstacles (beforeSpawn demoEnv demoCanvas lateGame)) + 1"
  using spawn_cadence_no_floor [OF lateGame_facts(1), of demoEnv demoCanvas 0] lateGame_facts
  by simp

text \<open>
  The spawn threshold where claim C8 expects a floor: at score 3400 the threshold is 0, a
  frame that starts with the counter at 0 spawns an obstacle and leaves the counter at 0,
  and at level 40 the threshold is negative.
\<close>

theorem spawn_cadence_no_floor_counterexample:
  "spawn lateGame = 0 \<and> score lateGame div 100 + 1 = 35
   \<and> OBSTACLE_SPAWN_INTERVAL - 2 * (score lateGame div 100 + 1) = 0
   \<and> spawn (gameLoop demoEnv demoCanvas lateGame) = 0
   \<and> length (obstacles (gameLoop demoEnv demoCanvas lateGame))
       = length (obstacles (beforeSpawn demoEnv demoCanvas lateGame)) + 1
   \<and> spawnThreshold 40 = - 10"
proof -
  have th: "spawn lateGame + 1 > spawnThreshold (score lateGame div 100 + 1)"
    by (simp add: lateGame_facts spawnThreshold_def OBSTACLE_SPAWN_INTERVAL_def)
  obtain ob where "obstacles (gameLoop demoEnv demoCanvas lateGame)
      = obstacles (beforeSpawn demoEnv demoCanvas lateGame)
        @ (if spawn lateGame + 1 > spawnThreshold (score lateGame div 100 + 1)
           then [ob] else [])"
    using gameLoop_obstacles [OF lateGame_facts(1), of demoCanvas demoEnv] by blast
  then have len: "length (obstacles (gameLoop demoEnv demoCanvas lateGame))
      = length (obstacles (beforeSpawn demoEnv demoCanvas lateGame)) + 1"
    using th by simp
  have sp: "spawn (gameLoop demoEnv demoCanvas lateGame) = 0"
    using gameLoop_spawn [OF lateGame_facts(1), of demoEnv demoCanvas] th by simp
  show ?thesis
    using len sp by (simp add: lateGame_facts spawnThreshold_def OBSTACLE_SPAWN_INTERVAL_def)
qed

subsection \<open>Combo\<close>

lemma hit_cases:
  "fst (checkCollision p ob cv) \<Longrightarrow> checkCollision p ob cv = (True, Pass)"
  by (simp add: checkCollision_def split: if_splits)

lemma obstacleStep_combo:
  "combo (fst (obstacleStep e cv speed s ob))
     = (if qualifyingPass cv speed s ob then combo s + 1
        else if damageEvent cv speed s ob then 0 else combo s)"
  by (auto simp add: obstacleStep_def qualifyingPass_def damageEvent_def Let_def
      saveBestScore_def dest: hit_cases)

lemma obstacleStep_comboTimer:
  "comboTimer (fst (obstacleStep e cv speed s ob))
     = (if qualifyingPass cv speed s ob then COMBO_TIMEOUT
        else if damageEvent cv speed s ob then 0 else comboTimer s)"
  by (auto simp add: obstacleStep_def qualifyingPass_def damageEvent_def Let_def
      saveBestScore_def dest: hit_cases)

lemma obstacleStep_jump_combo:
  "snd (checkCollision (player s) (ob\<lparr>o_x := o_x ob - speed\<rparr>) cv) = Jump
   \<Longrightarrow> combo (fst (obstacleStep e cv speed s ob)) = combo s
     \<and> comboTimer (fst (obstacleStep e cv speed s ob)) = comboTimer s"
  by (auto simp add: obstacleStep_combo obstacleStep_comboTimer qualifyingPass_def
      damageEvent_def)

lemma obstaclesForEach_combo_mono:
  "\<not> damageInLoop e cv speed s obs
   \<Longrightarrow> combo s \<le> combo (fst (obstaclesForEach e cv speed s obs))"
proof (induction obs arbitrary: s)
  case Nil
  then show ?case by simp
next
  case (Cons ob obs)
  let ?s1 = "fst (obstacleStep e cv speed s ob)"
  have nd: "\<not> damageEvent cv speed s ob" "\<not> damageInLoop e cv speed ?s1 obs"
    using Cons.prems by simp_all
  have "combo s \<le> combo ?s1" using nd(1) by (simp add: obstacleStep_combo)
  moreover have "combo ?s1 \<le> combo (fst (obstaclesForEach e cv speed ?s1 obs))"
    using nd(2) by (rule Cons.IH)
  ultimately show ?case by (simp add: split_beta Let_def)
qed

lemma afterObstacles_combo_mono:
  "\<not> damageInFrame e cv s \<Longrightarrow> combo s \<le> combo (afterObstacles e cv s)"
  using obstaclesForEach_combo_mono [of e cv
      "currentSpeed (updatePhysics cv (updateBackground cv s))"
      "updateLevel (updatePhysics cv (updateBackground cv s))" "obstacles s"]
  by (simp add: damageInFrame_def afterObstacles_def obstaclesPhase_def Let_def split_beta)

lemma comboTimerStep_combo:
  "combo (comboTimerStep s) = (if comboTimer s > 0 then combo s else 0)"
  "comboTimer (comboTimerStep s) = (if comboTimer s > 0 then comboTimer s - 1 else comboTimer s)"
  by (simp_all add: comboTimerStep_def)

lemma gameLoop_combo:
  assumes "gameStarted s"
  shows "combo (gameLoop e cv s)
           = (if comboTimer (afterObstacles e cv s) > 0 then combo (afterObstacles e cv s) else 0)"
    and "comboTimer (gameLoop e cv s)
           = (if comboTimer (afterObstacles e cv s) > 0 then comboTimer (afterObstacles e cv s) - 1
              else comboTimer (afterObstacles e cv s))"
  using assms by (simp_all add: gameLoop_phases comboTimerStep_combo)

lemma gameLoop_combo_decrease:
  assumes "gameStarted s" "combo (gameLoop e cv s) < combo s"
  shows "damageInFrame e cv s \<or> comboTimer (afterObstacles e cv s) \<le> 0"
proof (rule ccontr)
  assume "\<not> (damageInFrame e cv s \<or> comboTimer (afterObstacles e cv s) \<le> 0)"
  then have nd: "\<not> damageInFrame e cv s" and t: "comboTimer (afterObstacles e cv s) > 0"
    by auto
  have "combo (gameLoop e cv s) = combo (afterObstacles e cv s)"
    using gameLoop_combo(1) [OF assms(1), of e cv] t by simp
  moreover have "combo s \<le> combo (afterObstacles e cv s)"
    using nd by (rule afterObstacles_combo_mono)
  ultimately show False using assms(2) by simp
qed

lemma handleJump_combo: "combo (handleJump e s) = combo s"
  by (simp add: handleJump_def startGame_def Let_def)

lemma title_combo: "\<not> gameStarted s \<Longrightarrow> combo (gameLoop e cv s) = combo s"
  by (simp add: gameLoop_title)

text \<open>
  Claim C9, as the code has it. The callback of an obstacle increments the combo on a
  same-colour pass-through of an obstacle not yet passed, sets it to 0 on a damage event,
  and leaves it alone otherwise, in particular when the obstacle is jumped over. The
  bookkeeping at the end of the frame sets the combo to 0 exactly when the combo timer is
  not positive at that moment, that is, one frame after the frame that decremented the
  timer to 0, or in the frame of a damage event, unless a same-colour pass-through has set
  the timer again. A frame that lowers the combo has a damage event or ends with the timer
  not positive. The title screen, the colour change and the jump handler do not touch the
  combo.
\<close>

theorem combo_reset_conditions:
  "combo (fst (obstacleStep e cv speed s ob))
     = (if qualifyingPass cv speed s ob then combo s + 1
        else if damageEvent cv speed s ob then 0 else combo s)
 \<and> (snd (checkCollision (player s) (ob\<lparr>o_x := o_x ob - speed\<rparr>) cv) = Jump
      \<longrightarrow> combo (fst (obstacleStep e cv speed s ob)) = combo s)
 \<and> combo (comboTimerStep s) = (if comboTimer s > 0 then combo s else 0)
 \<and> (gameStarted s \<longrightarrow>
      combo (gameLoop e cv s)
        = (if comboTimer (afterObstacles e cv s) > 0 then combo (afterObstacles e cv s) else 0))
 \<and> (gameStarted s \<and> combo (gameLoop e cv s) < combo s
      \<longrightarrow> damageInFrame e cv s \<or> comboTimer (afterObstacles e cv s) \<le> 0)
 \<and> (\<not> gameStarted s \<longrightarrow> combo (gameLoop e cv s) = combo s)
 \<and> combo (applyColorChange e s) = combo s
 \<and> combo (handleJump e s) = combo s"
  using obstacleStep_combo [of e cv speed s ob] obstacleStep_jump_combo [of s ob speed cv e]
    comboTimerStep_combo(1) [of s] gameLoop_combo(1) [of s e cv]
    gameLoop_combo_decrease [of s e cv] title_combo [of s e cv]
    applyColorChange_fields(5) [of e s] handleJump_combo [of e s]
  by blast

lemma afterObstacles_empty:
  "obstacles s = [] \<Longrightarrow> combo (afterObstacles e cv s) = combo s
     \<and> comboTimer (afterObstacles e cv s) = comboTimer s
     \<and> obstacles (afterObstacles e cv s) = []"
  by (simp add: afterObstacles_def obstaclesPhase_def Let_def)

lemma beforeSpawn_obstacles:
  "obstacles (beforeSpawn e cv s)
     = filter (\<lambda>obs. o_x obs > - OBSTACLE_WIDTH) (obstacles (afterObstacles e cv s))"
  by (simp add: beforeSpawn_def)

lemma gameLoop_gameStarted: "gameStarted s \<Longrightarrow> gameStarted (gameLoop e cv s)"
  by (simp add: gameLoop_phases beforeSpawn_def)

lemma comboRunning_facts:
  "gameStarted comboRunning" "obstacles comboRunning = []" "combo comboRunning = 3"
  "comboTimer comboRunning = 1" "spawn comboRunning = 0" "score comboRunning = 0"
  by (simp_all add: comboRunning_def demo_defs)

lemma comboRunning_frame:
  "combo (gameLoop demoEnv demoCanvas comboRunning) = 3"
  "comboTimer (gameLoop demoEnv demoCanvas comboRunning) = 0"
  "obstacles (gameLoop demoEnv demoCanvas comboRunning) = []"
  "gameStarted (gameLoop demoEnv demoCanvas comboRunning)"
proof -
  have a: "combo (afterObstacles demoEnv demoCanvas comboRunning) = 3"
    "comboTimer (afterObstacles demoEnv demoCanvas comboRunning) = 1"
    "obstacles (afterObstacles demoEnv demoCanvas comboRunning) = []"
    using afterObstacles_empty [OF comboRunning_facts(2), of demoEnv demoCanvas]
    by (simp_all add: comboRunning_facts)
  show "combo (gameLoop demoEnv demoCanvas comboRunning) = 3"
    using gameLoop_combo(1) [OF comboRunning_facts(1), of demoEnv demoCanvas] a by simp
  show "comboTimer (gameLoop demoEnv demoCanvas comboRunning) = 0"
    using gameLoop_combo(2) [OF comboRunning_facts(1), of demoEnv demoCanvas] a by simp
  obtain ob where "obstacles (gameLoop demoEnv demoCanvas comboRunning)
      = obstacles (beforeSpawn demoEnv demoCanvas comboRunning)
        @ (if spawn comboRunning + 1 > spawnThreshold (score comboRunning div 100 + 1)
           then [ob] else [])"
    using gameLoop_obstacles [OF comboRunning_facts(1), of demoCanvas demoEnv] by blast
  then show "obstacles (gameLoop demoEnv demoCanvas comboRunning) = []"
    using a(3)
    by (simp add: beforeSpawn_obstacles comboRunning_facts spawnThreshold_def
        OBSTACLE_SPAWN_INTERVAL_def)
  show "gameStarted (gameLoop demoEnv demoCanvas comboRunning)"
    using comboRunning_facts(1) by (rule gameLoop_gameStarted)
qed

text \<open>
  The frame in which the combo timer reaches 0 does not reset the combo, against claim C9:
  the timer goes from 1 to 0 and the combo stays 3; the next frame resets it.
\<close>

theorem combo_reset_conditions_counterexample:
  "comboTimer comboRunning = 1 \<and> combo comboRunning = 3 \<and> obstacles comboRunning = []
   \<and> comboTimer (gameLoop demoEnv demoCanvas comboRunning) = 0
   \<and> combo (gameLoop demoEnv demoCanvas comboRunning) = 3
   \<and> combo (gameLoop demoEnv demoCanvas (gameLoop demoEnv demoCanvas comboRunning)) = 0"
proof -
  let ?s1 = "gameLoop demoEnv demoCanvas comboRunning"
  have "combo (afterObstacles demoEnv demoCanvas ?s1) = 3
      \<and> comboTimer (afterObstacles demoEnv demoCanvas ?s1) = 0"
    using afterObstacles_empty [OF comboRunning_frame(3), of demoEnv demoCanvas]
    by (simp add: comboRunning_frame)
  then have "combo (gameLoop demoEnv demoCanvas ?s1) = 0"
    using gameLoop_combo(1) [OF comboRunning_frame(4), of demoEnv demoCanvas] by simp
  then show ?thesis by (simp add: comboRunning_facts comboRunning_frame)
qed

theorem combo_reset_conditions_witness:
  "gameStarted (gameLoop demoEnv demoCanvas comboRunning)
   \<and> comboTimer (afterObstacles demoEnv demoCanvas (gameLoop demoEnv demoCanvas comboRunning)) = 0
   \<and> combo (gameLoop demoEnv demoCanvas (gameLoop demoEnv demoCanvas comboRunning)) = 0
   \<and> combo (gameLoop demoEnv demoCanvas (gameLoop demoEnv demoCanvas comboRunning))
       < combo (gameLoop demoEnv demoCanvas comboRunning)
   \<and> (damageInFrame demoEnv demoCanvas (gameLoop demoEnv demoCanvas comboRunning)
       \<or> comboTimer (afterObstacles demoEnv demoCanvas
            (gameLoop demoEnv demoCanvas comboRunning)) \<le> 0)
   \<and> snd (checkCollision (player (comboRunning\<lparr>player := grazing\<rparr>))
         (redObstacle\<lparr>o_x := o_x redObstacle - 3\<rparr>) demoCanvas) = Jump
   \<and> combo (fst (obstacleStep demoEnv demoCanvas 3 (comboRunning\<lparr>player := grazing\<rparr>)
         redObstacle)) = 3
   \<and> \<not> gameStarted (mount demoEnv None)
   \<and> combo (gameLoop demoEnv demoCanvas (mount demoEnv None)) = 0"
proof -
  let ?s1 = "gameLoop demoEnv demoCanvas comboRunning"
  have a: "combo (afterObstacles demoEnv demoCanvas ?s1) = 3"
    "comboTimer (afterObstacles demoEnv demoCanvas ?s1) = 0"
    using afterObstacles_empty [OF comboRunning_frame(3), of demoEnv demoCanvas]
    by (simp_all add: comboRunning_frame)
  have j: "snd (checkCollision (player (comboRunning\<lparr>player := grazing\<rparr>))
      (redObstacle\<lparr>o_x := o_x redObstacle - 3\<rparr>) demoCanvas) = Jump"
    by (simp add: grazing_def demo_defs geometry_defs)
  have c: "combo (comboRunning\<lparr>player := grazing\<rparr>) = 3"
    by (simp add: comboRunning_def)
  have t: "\<not> gameStarted (mount demoEnv None)" "combo (mount demoEnv None) = 0"
    by (simp_all add: demo_defs)
  show ?thesis
    using combo_reset_conditions [of demoEnv demoCanvas 3 ?s1 redObstacle]
      combo_reset_conditions [of demoEnv demoCanvas 3 "comboRunning\<lparr>player := grazing\<rparr>" redObstacle]
      combo_reset_conditions [of demoEnv demoCanvas 3 "mount demoEnv None" redObstacle]
      a comboRunning_frame j c t
    by simp
qed

subsection \<open>Colour change\<close>

lemma Rep_rnd: "Rep_unit_interval (rnd r) = (if 0 \<le> r \<and> r < 1 then r else 0)"
  by (simp add: rnd_def Abs_unit_interval_inverse)

lemma mathRandom_range: "0 \<le> mathRandom e s \<and> mathRandom e s < 1"
  using Rep_unit_interval [of "random e (randomCalls s)"] by (simp add: mathRandom_def)

lemma colorChangeCheck_latch:
  "colorChanged ob \<Longrightarrow> colorChangeCheck e s ob = (s, ob)"
  by (simp add: colorChangeCheck_def)

lemma colorChangeCheck_roll:
  assumes "passed ob" "o_x ob + OBSTACLE_WIDTH < p_x (player s) - radius (player s) - 10"
    "\<not> colorChanged ob"
  shows "colorChanged (snd (colorChangeCheck e s ob))"
    and "colorChangeOnNextObstacle (fst (colorChangeCheck e s ob))
           \<longleftrightarrow> colorChangeOnNextObstacle s
               \<or> (p_color (player s) = o_color ob \<and> mathRandom e s < 4 / 10)"
proof -
  show "colorChanged (snd (colorChangeCheck e s ob))"
    using assms by (simp add: colorChangeCheck_def Let_def)
  have "\<lfloor>mathRandom e s * 10\<rfloor> + 1 \<le> 4 \<longleftrightarrow> mathRandom e s < 4 / 10"
  proof -
    have "\<lfloor>mathRandom e s * 10\<rfloor> + 1 \<le> 4 \<longleftrightarrow> \<lfloor>mathRandom e s * 10\<rfloor> < 4" by linarith
    also have "\<dots> \<longleftrightarrow> mathRandom e s * 10 < 4" by (simp add: floor_less_iff)
    also have "\<dots> \<longleftrightarrow> mathRandom e s < 4 / 10" by linarith
    finally show ?thesis .
  qed
  then show "colorChangeOnNextObstacle (fst (colorChangeCheck e s ob))
           \<longleftrightarrow> colorChangeOnNextObstacle s
               \<or> (p_color (player s) = o_color ob \<and> mathRandom e s < 4 / 10)"
    using assms by (simp add: colorChangeCheck_def called_def Let_def)
qed

lemma availableColors_pick:
  "availableColors c ! nat \<lfloor>mathRandom e s * real (length (availableColors c))\<rfloor>
     \<in> set COLORS - {c}"
proof -
  let ?av = "availableColors c"
  let ?r = "mathRandom e s"
  have len: "0 < length ?av"
    by (cases "c = ''#ff4757''") (simp_all add: availableColors_def COLORS_def)
  have r: "0 \<le> ?r" "?r < 1" using mathRandom_range by auto
  have "?r * real (length ?av) < real (length ?av)" using r(2) len by simp
  then have "\<lfloor>?r * real (length ?av)\<rfloor> < int (length ?av)"
    by (simp add: floor_less_iff)
  moreover have "0 \<le> \<lfloor>?r * real (length ?av)\<rfloor>" using r(1) by simp
  ultimately have "nat \<lfloor>?r * real (length ?av)\<rfloor> < length ?av" by linarith
  then have "?av ! nat \<lfloor>?r * real (length ?av)\<rfloor> \<in> set ?av" by (rule nth_mem)
  then show ?thesis by (auto simp add: availableColors_def)
qed

lemma applyColorChange_new_color:
  "colorChangeOnNextObstacle s
   \<Longrightarrow> p_color (player (applyColorChange e s)) \<in> set COLORS - {p_color (player s)}
     \<and> \<not> colorChangeOnNextObstacle (applyColorChange e s)"
  using availableColors_pick [of "p_color (player s)" e s]
  by (simp add: applyColorChange_def Let_def)

lemmas frame_defs = gameLoop_phases beforeSpawn_def afterObstacles_def updateBackground_def
  updatePhysics_def currentSpeed_def updateLevel_def obstaclesPhase_def powerUpsPhase_def
  particlesPhase_def prune_def obstacleSpawner_def powerUpSpawner_def applyColorChange_def
  decreaseTimers_def comboTimerStep_def obstacleStep_def colorChangeCheck_def
  spawnThreshold_def OBSTACLE_SPAWN_INTERVAL_def OBSTACLE_BASE_SPEED_def
  SPEED_INCREASE_RATE_def MAX_SPEED_MULTIPLIER_def PLAYER_GRAVITY_def Let_def demoCanvas_def
  geometry_defs

lemma midJump_first_frame:
  "gameLoop demoEnv demoCanvas midJump
     = midJump\<lparr>player := (player midJump)\<lparr>p_y := 4006 / 10, vy := 6 / 10\<rparr>,
         obstacles := [\<lparr>o_x = 92, o_color = ''#ff4757'', passed = True, o_type = Normal,
                        colorChanged = False\<rparr>],
         score := 1, backgroundOffset := 1 / 2, spawn := 1, powerUpSpawn := 1\<rparr>"
  by (simp add: midJump_def frame_defs)

lemma midJump_frame_18:
  "gameFrames demoEnv demoCanvas 18 midJump
     = midJump\<lparr>player := (player midJump)\<lparr>p_y := 5026 / 10, vy := 108 / 10\<rparr>,
         obstacles := [\<lparr>o_x = 41, o_color = ''#ff4757'', passed = True, o_type = Normal,
                        colorChanged = False\<rparr>],
         score := 1, backgroundOffset := 9, spawn := 18, powerUpSpawn := 18\<rparr>"
  by (simp add: eval_nat_numeral midJump_def frame_defs)

lemma midJump_frame_19:
  "p_color (player (gameFrames demoEnv demoCanvas 19 midJump)) = ''#2ed573''"
  "score (gameFrames demoEnv demoCanvas 19 midJump) = 1"
  "combo (gameFrames demoEnv demoCanvas 19 midJump) = 0"
  "obstacles (gameFrames demoEnv demoCanvas 19 midJump)
     = [\<lparr>o_x = 38, o_color = ''#ff4757'', passed = True, o_type = Normal,
         colorChanged = True\<rparr>]"
proof -
  have "gameFrames demoEnv demoCanvas 19 midJump
      = gameLoop demoEnv demoCanvas (gameFrames demoEnv demoCanvas 18 midJump)"
    by (simp add: eval_nat_numeral)
  then have eq: "gameFrames demoEnv demoCanvas 19 midJump
      = gameLoop demoEnv demoCanvas
          (midJump\<lparr>player := (player midJump)\<lparr>p_y := 5026 / 10, vy := 108 / 10\<rparr>,
             obstacles := [\<lparr>o_x = 41, o_color = ''#ff4757'', passed = True, o_type = Normal,
                            colorChanged = False\<rparr>],
             score := 1, backgroundOffset := 9, spawn := 18, powerUpSpawn := 18\<rparr>)"
    by (simp only: midJump_frame_18)
  show "p_color (player (gameFrames demoEnv demoCanvas 19 midJump)) = ''#2ed573''"
    unfolding eq
    by (simp add: midJump_def frame_defs demoEnv_def mathRandom_def called_def Rep_rnd
        availableColors_def COLORS_def)
  show "score (gameFrames demoEnv demoCanvas 19 midJump) = 1"
    unfolding eq
    by (simp add: midJump_def frame_defs demoEnv_def mathRandom_def called_def Rep_rnd
        availableColors_def COLORS_def)
  show "combo (gameFrames demoEnv demoCanvas 19 midJump) = 0"
    unfolding eq
    by (simp add: midJump_def frame_defs demoEnv_def mathRandom_def called_def Rep_rnd
        availableColors_def COLORS_def)
  show "obstacles (gameFrames demoEnv demoCanvas 19 midJump)
     = [\<lparr>o_x = 38, o_color = ''#ff4757'', passed = True, o_type = Normal,
         colorChanged = True\<rparr>]"
    unfolding eq
    by (simp add: midJump_def frame_defs demoEnv_def mathRandom_def called_def Rep_rnd
        availableColors_def COLORS_def)
qed

text \<open>
  Claim C7, evaluated where the code leaves it. The comments in the source (lines 751 and
  758) say that the roll for a colour change is made only for an obstacle that was passed
  through in the player's colour. The condition of the code is that the obstacle is marked
  passed and has the player's colour when it has gone behind the player. Here 19 frames
  run from a state in which the player is in the air above an obstacle of its own colour:
  the first frame classifies the pair as \<^verbatim>\<open>jump\<close> without hit and marks the obstacle passed by
  the jump-over branch (1 point, combo unchanged); after 18 frames nothing else has changed;
  the 19th frame finds the obstacle more than 10 pixels behind the player and rolls,
  \<^verbatim>\<open>Math.random\<close> returns 0.1, and the player's colour changes to the second colour of the
  palette.
\<close>

theorem color_roll_after_jump_over:
  "p_color (player midJump) = ''#ff4757''
   \<and> obstacles midJump = [\<lparr>o_x = 95, o_color = ''#ff4757'', passed = False, o_type = Normal,
        colorChanged = False\<rparr>]
   \<and> checkCollision ((player midJump)\<lparr>p_y := 4006 / 10, vy := 6 / 10\<rparr>)
        \<lparr>o_x = 92, o_color = ''#ff4757'', passed = False, o_type = Normal,
          colorChanged = False\<rparr> demoCanvas = (False, Jump)
   \<and> obstacles (gameLoop demoEnv demoCanvas midJump)
       = [\<lparr>o_x = 92, o_color = ''#ff4757'', passed = True, o_type = Normal,
           colorChanged = False\<rparr>]
   \<and> score (gameLoop demoEnv demoCanvas midJump) = 1
   \<and> combo (gameLoop demoEnv demoCanvas midJump) = 0
   \<and> p_color (player (gameFrames demoEnv demoCanvas 18 midJump)) = ''#ff4757''
   \<and> \<not> colorChangeOnNextObstacle (gameFrames demoEnv demoCanvas 18 midJump)
   \<and> obstacles (gameFrames demoEnv demoCanvas 19 midJump)
       = [\<lparr>o_x = 38, o_color = ''#ff4757'', passed = True, o_type = Normal,
           colorChanged = True\<rparr>]
   \<and> score (gameFrames demoEnv demoCanvas 19 midJump) = 1
   \<and> combo (gameFrames demoEnv demoCanvas 19 midJump) = 0
   \<and> p_color (player (gameFrames demoEnv demoCanvas 19 midJump)) = ''#2ed573''"
proof -
  have a: "checkCollision ((player midJump)\<lparr>p_y := 4006 / 10, vy := 6 / 10\<rparr>)
      \<lparr>o_x = 92, o_color = ''#ff4757'', passed = False, o_type = Normal,
        colorChanged = False\<rparr> demoCanvas = (False, Jump)"
    by (simp add: midJump_def demoCanvas_def geometry_defs)
  have b: "p_color (player midJump) = ''#ff4757''"
    "obstacles midJump = [\<lparr>o_x = 95, o_color = ''#ff4757'', passed = False, o_type = Normal,
        colorChanged = False\<rparr>]"
    "combo midJump = 0" "\<not> colorChangeOnNextObstacle midJump"
    by (simp_all add: midJump_def)
  show ?thesis
    using a b midJump_frame_19
    by (simp add: midJump_first_frame midJump_frame_18)
qed

subsection \<open>The callback inside the frame\<close>

lemma afterObstacles_eq:
  "afterObstacles e cv s = obstaclesPhase e cv (frameSpeed cv s) (frameStart cv s)"
  by (simp add: afterObstacles_def frameSpeed_def frameStart_def Let_def)

lemma obstaclesForEach_append:
  "obstaclesForEach e cv speed s (xs @ ys)
     = (fst (obstaclesForEach e cv speed (fst (obstaclesForEach e cv speed s xs)) ys),
        snd (obstaclesForEach e cv speed s xs)
          @ snd (obstaclesForEach e cv speed (fst (obstaclesForEach e cv speed s xs)) ys))"
  by (induction xs arbitrary: s) (simp_all add: split_beta Let_def)

lemma obstaclesForEach_length:
  "length (snd (obstaclesForEach e cv speed s obs)) = length obs"
  by (induction obs arbitrary: s) (simp_all add: split_beta Let_def)

lemma frameStart_obstacles: "obstacles (frameStart cv s) = obstacles s"
  by (simp add: frameStart_def)

lemma afterObstacles_through:
  assumes "obstacles s = pre @ ob # post"
  shows "afterObstacles e cv s
     = (fst (restOfLoop e cv s pre ob post))
         \<lparr>obstacles := snd (obstaclesForEach e cv (frameSpeed cv s) (frameStart cv s) pre)
            @ snd (afterCallback e cv s pre ob) # snd (restOfLoop e cv s pre ob post)\<rparr>"
  using assms
  by (simp add: afterObstacles_eq obstaclesPhase_def frameStart_obstacles
      obstaclesForEach_append restOfLoop_def afterCallback_def atCallback_def split_beta Let_def)

lemma afterObstacles_through_fields:
  assumes "obstacles s = pre @ ob # post"
  shows "player (afterObstacles e cv s) = player (fst (restOfLoop e cv s pre ob post))"
    and "score (afterObstacles e cv s) = score (fst (restOfLoop e cv s pre ob post))"
    and "combo (afterObstacles e cv s) = combo (fst (restOfLoop e cv s pre ob post))"
    and "comboTimer (afterObstacles e cv s) = comboTimer (fst (restOfLoop e cv s pre ob post))"
    and "bestScore (afterObstacles e cv s) = bestScore (fst (restOfLoop e cv s pre ob post))"
    and "isGameOver (afterObstacles e cv s) = isGameOver (fst (restOfLoop e cv s pre ob post))"
    and "localStorage (afterObstacles e cv s)
           = localStorage (fst (restOfLoop e cv s pre ob post))"
    and "obstacles (afterObstacles e cv s) ! length pre = snd (afterCallback e cv s pre ob)"
  by (simp_all add: afterObstacles_through [OF assms] obstaclesForEach_length nth_append)

lemma restOfLoop_Nil: "restOfLoop e cv s pre ob [] = (fst (afterCallback e cv s pre ob), [])"
  by (simp add: restOfLoop_def)

lemma atCallback_Nil:
  "score (atCallback e cv s []) = score s"
  "combo (atCallback e cv s []) = combo s"
  "comboTimer (atCallback e cv s []) = comboTimer s"
  "bestScore (atCallback e cv s []) = bestScore s"
  "localStorage (atCallback e cv s []) = localStorage s"
  "lives (player (atCallback e cv s [])) = lives (player s)"
  "shield (player (atCallback e cv s [])) = shield (player s)"
  "invincible (player (atCallback e cv s [])) = invincible (player s)"
  "p_color (player (atCallback e cv s [])) = p_color (player s)"
  by (simp_all add: atCallback_def frameStart_def updateLevel_def updatePhysics_def
      updateBackground_def Let_def)

lemma powerUpStep_store [simp]:
  "bestScore (fst (powerUpStep e speed s u)) = bestScore s"
  "localStorage (fst (powerUpStep e speed s u)) = localStorage s"
  by (simp_all add: powerUpStep_def Let_def split: powerup_type.splits)

lemma powerUpsForEach_store [simp]:
  "bestScore (fst (powerUpsForEach e speed s us)) = bestScore s"
  "localStorage (fst (powerUpsForEach e speed s us)) = localStorage s"
  by (induction us arbitrary: s) (simp_all add: split_beta Let_def)

lemma obstaclesForEach_powerUps [simp]:
  "powerUps (fst (obstaclesForEach e cv speed s obs)) = powerUps s"
  by (induction obs arbitrary: s) (simp_all add: split_beta Let_def)

lemma afterObstacles_powerUps: "powerUps (afterObstacles e cv s) = powerUps s"
  by (simp add: afterObstacles_eq obstaclesPhase_def frameStart_def split_beta)

lemma later_phases_store [simp]:
  "bestScore (powerUpsPhase e speed s) = bestScore s"
  "localStorage (powerUpsPhase e speed s) = localStorage s"
  "bestScore (particlesPhase s) = bestScore s"
  "localStorage (particlesPhase s) = localStorage s"
  "bestScore (prune s) = bestScore s"
  "localStorage (prune s) = localStorage s"
  "bestScore (obstacleSpawner e cv s) = bestScore s"
  "localStorage (obstacleSpawner e cv s) = localStorage s"
  "bestScore (decreaseTimers s) = bestScore s"
  "localStorage (decreaseTimers s) = localStorage s"
  "bestScore (comboTimerStep s) = bestScore s"
  "localStorage (comboTimerStep s) = localStorage s"
  by (simp_all add: powerUpsPhase_def particlesPhase_def prune_def obstacleSpawner_def
      spawnObstacle_def decreaseTimers_def comboTimerStep_def called_def Let_def split_beta)

lemma powerUpSpawner_store [simp]:
  "bestScore (powerUpSpawner e cv s) = bestScore s"
  "localStorage (powerUpSpawner e cv s) = localStorage s"
  by (simp_all add: powerUpSpawner_def spawnPowerUp_def called_def Let_def split_beta)

lemma applyColorChange_store [simp]:
  "bestScore (applyColorChange e s) = bestScore s"
  "localStorage (applyColorChange e s) = localStorage s"
  "shield (player (applyColorChange e s)) = shield (player s)"
  by (simp_all add: applyColorChange_def called_def Let_def)

lemma decreaseTimers_shield:
  "shield (player (decreaseTimers s))
     = (if shield (player s) > 0 then shield (player s) - 1 else shield (player s))"
  by (simp add: decreaseTimers_def Let_def)

lemma powerUpsPhase_Nil: "powerUps s = [] \<Longrightarrow> powerUpsPhase e speed s = s"
  by (simp add: powerUpsPhase_def)

lemma gameLoop_after_flags:
  assumes "gameStarted s"
  shows "isGameOver (gameLoop e cv s) = isGameOver (afterObstacles e cv s)"
    and "bestScore (gameLoop e cv s) = bestScore (afterObstacles e cv s)"
    and "localStorage (gameLoop e cv s) = localStorage (afterObstacles e cv s)"
  using assms by (simp_all add: gameLoop_phases beforeSpawn_def)

lemma gameLoop_after_quiet:
  assumes "gameStarted s" "powerUps s = []"
  shows "score (gameLoop e cv s) = score (afterObstacles e cv s)"
    and "lives (player (gameLoop e cv s)) = lives (player (afterObstacles e cv s))"
    and "shield (player (afterObstacles e cv s)) = 0
         \<Longrightarrow> shield (player (gameLoop e cv s)) = 0"
  using assms afterObstacles_powerUps [of e cv s]
  by (simp_all add: gameLoop_phases beforeSpawn_def powerUpsPhase_Nil decreaseTimers_shield)

lemma obstaclesForEach_timer_full:
  "\<not> damageInLoop e cv speed s obs \<Longrightarrow> comboTimer s = COMBO_TIMEOUT
   \<Longrightarrow> comboTimer (fst (obstaclesForEach e cv speed s obs)) = COMBO_TIMEOUT"
proof (induction obs arbitrary: s)
  case Nil
  then show ?case by simp
next
  case (Cons ob obs)
  let ?s1 = "fst (obstacleStep e cv speed s ob)"
  have nd: "\<not> damageEvent cv speed s ob" "\<not> damageInLoop e cv speed ?s1 obs"
    using Cons.prems(1) by simp_all
  have "comboTimer ?s1 = COMBO_TIMEOUT"
    using nd(1) Cons.prems(2) by (simp add: obstacleStep_comboTimer)
  with nd(2) have "comboTimer (fst (obstaclesForEach e cv speed ?s1 obs)) = COMBO_TIMEOUT"
    by (rule Cons.IH)
  then show ?case by (simp add: split_beta Let_def)
qed

lemma obstacleStep_shield_zero:
  "shield (player s) = 0 \<Longrightarrow> shield (player (fst (obstacleStep e cv speed s ob))) = 0"
  by (simp add: obstacleStep_def Let_def saveBestScore_def)

lemma obstaclesForEach_shield_zero:
  "shield (player s) = 0 \<Longrightarrow> shield (player (fst (obstaclesForEach e cv speed s obs))) = 0"
proof (induction obs arbitrary: s)
  case Nil
  then show ?case by simp
next
  case (Cons ob obs)
  have "shield (player (fst (obstacleStep e cv speed s ob))) = 0"
    using Cons.prems by (rule obstacleStep_shield_zero)
  then have "shield (player (fst (obstaclesForEach e cv speed
      (fst (obstacleStep e cv speed s ob)) obs))) = 0"
    by (rule Cons.IH)
  then show ?case by (simp add: split_beta Let_def)
qed

lemma obstacleStep_invincible:
  "0 < invincible (player s) \<Longrightarrow>
     player (fst (obstacleStep e cv speed s ob)) = player s
     \<and> bestScore (fst (obstacleStep e cv speed s ob)) = bestScore s
     \<and> localStorage (fst (obstacleStep e cv speed s ob)) = localStorage s
     \<and> isGameOver (fst (obstacleStep e cv speed s ob)) = isGameOver s"
  by (simp add: obstacleStep_def Let_def)

lemma obstaclesForEach_invincible:
  "0 < invincible (player s) \<Longrightarrow>
     player (fst (obstaclesForEach e cv speed s obs)) = player s
     \<and> bestScore (fst (obstaclesForEach e cv speed s obs)) = bestScore s
     \<and> localStorage (fst (obstaclesForEach e cv speed s obs)) = localStorage s
     \<and> isGameOver (fst (obstaclesForEach e cv speed s obs)) = isGameOver s"
proof (induction obs arbitrary: s)
  case Nil
  then show ?case by simp
next
  case (Cons ob obs)
  let ?s1 = "fst (obstacleStep e cv speed s ob)"
  have a: "player ?s1 = player s" "bestScore ?s1 = bestScore s"
    "localStorage ?s1 = localStorage s" "isGameOver ?s1 = isGameOver s"
    using obstacleStep_invincible [OF Cons.prems, of e cv speed ob] by auto
  then have "0 < invincible (player ?s1)" using Cons.prems by simp
  from Cons.IH [OF this] a show ?case by (simp add: split_beta Let_def)
qed

text \<open>
  Claim C2, as the code has it. In a frame in which the callback of an obstacle registers a
  pass-through hit (\<^verbatim>\<open>hit\<close> with type \<^verbatim>\<open>pass\<close>) on an obstacle that is not yet passed and has
  the player's colour, that callback adds the base score of the obstacle type plus
  \<open>combo div 5 * 5\<close> to the score, increments the combo, sets the combo timer to
  \<^verbatim>\<open>COMBO_TIMEOUT\<close> and marks the obstacle passed; score and combo are those of the moment the
  callback starts. The frame goes on from that state. The obstacle is still passed after
  the loop. If no later obstacle of the frame causes a damage event, the frame ends with
  the timer at \<^verbatim>\<open>COMBO_TIMEOUT\<close> minus 1 and the combo at least incremented; if the obstacle is
  the last one, the combo is exactly incremented; and in a frame with this obstacle alone
  and no power-up, score, combo and timer end as the claim says, but for the one decrement
  of the timer.
\<close>

theorem same_color_pass_award:
  assumes "gameStarted s" and "obstacles s = pre @ ob # post"
    and "checkCollision (player (atCallback e cv s pre))
           (ob\<lparr>o_x := o_x ob - frameSpeed cv s\<rparr>) cv = (True, Pass)"
    and "p_color (player (atCallback e cv s pre)) = o_color ob"
    and "\<not> passed ob"
  shows "score (fst (afterCallback e cv s pre ob))
           = score (atCallback e cv s pre) + baseScoreOf (o_type ob)
             + (combo (atCallback e cv s pre) div 5) * 5
       \<and> combo (fst (afterCallback e cv s pre ob)) = combo (atCallback e cv s pre) + 1
       \<and> comboTimer (fst (afterCallback e cv s pre ob)) = COMBO_TIMEOUT
       \<and> passed (snd (afterCallback e cv s pre ob))
       \<and> afterObstacles e cv s
           = (fst (restOfLoop e cv s pre ob post))
               \<lparr>obstacles := snd (obstaclesForEach e cv (frameSpeed cv s) (frameStart cv s) pre)
                  @ snd (afterCallback e cv s pre ob) # snd (restOfLoop e cv s pre ob post)\<rparr>
       \<and> passed (obstacles (afterObstacles e cv s) ! length pre)
       \<and> (\<not> damageInLoop e cv (frameSpeed cv s) (fst (afterCallback e cv s pre ob)) post
            \<longrightarrow> comboTimer (gameLoop e cv s) = COMBO_TIMEOUT - 1
              \<and> combo (atCallback e cv s pre) + 1 \<le> combo (gameLoop e cv s))
       \<and> (post = []
            \<longrightarrow> combo (gameLoop e cv s) = combo (atCallback e cv s pre) + 1
              \<and> score (afterObstacles e cv s)
                  = score (atCallback e cv s pre) + baseScoreOf (o_type ob)
                    + (combo (atCallback e cv s pre) div 5) * 5)
       \<and> (pre = [] \<and> post = [] \<and> powerUps s = []
            \<longrightarrow> score (gameLoop e cv s)
                  = score s + baseScoreOf (o_type ob) + (combo s div 5) * 5
              \<and> combo (gameLoop e cv s) = combo s + 1
              \<and> comboTimer (gameLoop e cv s) = COMBO_TIMEOUT - 1)"
proof -
  let ?sk = "atCallback e cv s pre"
  let ?r = "afterCallback e cv s pre ob"
  let ?R = "restOfLoop e cv s pre ob post"
  have cb: "score (fst ?r) = score ?sk + baseScoreOf (o_type ob) + (combo ?sk div 5) * 5"
    "combo (fst ?r) = combo ?sk + 1" "comboTimer (fst ?r) = COMBO_TIMEOUT" "passed (snd ?r)"
    using callback_same_color_pass [OF assms(3,4,5), of e] by (simp_all add: afterCallback_def)
  have thr: "afterObstacles e cv s
      = (fst ?R)\<lparr>obstacles := snd (obstaclesForEach e cv (frameSpeed cv s) (frameStart cv s) pre)
          @ snd ?r # snd ?R\<rparr>"
    using assms(2) by (rule afterObstacles_through)
  note f = afterObstacles_through_fields [OF assms(2), of e cv]
  have latch: "passed (obstacles (afterObstacles e cv s) ! length pre)"
    using f(8) cb(4) by simp
  have nodmg: "comboTimer (gameLoop e cv s) = COMBO_TIMEOUT - 1
      \<and> combo ?sk + 1 \<le> combo (gameLoop e cv s)"
    if nd: "\<not> damageInLoop e cv (frameSpeed cv s) (fst ?r) post"
  proof -
    have t: "comboTimer (fst ?R) = COMBO_TIMEOUT"
      using obstaclesForEach_timer_full [OF nd cb(3)] by (simp add: restOfLoop_def)
    have c: "combo (fst ?r) \<le> combo (fst ?R)"
      using obstaclesForEach_combo_mono [OF nd] by (simp add: restOfLoop_def)
    show ?thesis
      using gameLoop_combo [OF assms(1), of e cv] f(3,4) t c cb(2)
      by (simp add: COMBO_TIMEOUT_def)
  qed
  have last: "combo (gameLoop e cv s) = combo ?sk + 1
      \<and> score (afterObstacles e cv s)
          = score ?sk + baseScoreOf (o_type ob) + (combo ?sk div 5) * 5"
    if "post = []"
    using gameLoop_combo(1) [OF assms(1), of e cv] f(2,3,4) cb that
    by (simp add: restOfLoop_Nil COMBO_TIMEOUT_def)
  have only: "score (gameLoop e cv s) = score s + baseScoreOf (o_type ob) + (combo s div 5) * 5
      \<and> combo (gameLoop e cv s) = combo s + 1
      \<and> comboTimer (gameLoop e cv s) = COMBO_TIMEOUT - 1"
    if "pre = [] \<and> post = [] \<and> powerUps s = []"
  proof -
    have "\<not> damageInLoop e cv (frameSpeed cv s) (fst ?r) post" using that by simp
    then show ?thesis
      using nodmg last that gameLoop_after_quiet(1) [OF assms(1), of e cv]
      by (simp add: atCallback_Nil)
  qed
  show ?thesis using cb thr latch nodmg last only by blast
qed

text \<open>
  Claim C3, as the code has it. In a frame in which the callback of an obstacle registers a
  pass-through hit on an obstacle of another colour while the shield timer is positive and
  the player is not invincible, that callback sets the shield timer to 0, leaves the lives,
  sets combo and combo timer to 0, and marks the obstacle passed, with 1 point if it was
  not passed before. The frame goes on from that state: the shield stays 0 for the rest of
  the loop, so a later obstacle of the frame can take a life, at most one. If the obstacle
  is the last one, the loop leaves the lives, and combo and timer are 0 at the end of the
  frame; in a frame with this obstacle alone and no power-up, shield, lives, score, combo
  and timer end as the claim says.
\<close>

theorem shielded_hit_consumes_shield:
  assumes "gameStarted s" and "obstacles s = pre @ ob # post"
    and "shield (player (atCallback e cv s pre)) > 0"
    and "invincible (player (atCallback e cv s pre)) \<le> 0"
    and "checkCollision (player (atCallback e cv s pre))
           (ob\<lparr>o_x := o_x ob - frameSpeed cv s\<rparr>) cv = (True, Pass)"
    and "p_color (player (atCallback e cv s pre)) \<noteq> o_color ob"
  shows "shield (player (fst (afterCallback e cv s pre ob))) = 0
       \<and> lives (player (fst (afterCallback e cv s pre ob)))
           = lives (player (atCallback e cv s pre))
       \<and> combo (fst (afterCallback e cv s pre ob)) = 0
       \<and> comboTimer (fst (afterCallback e cv s pre ob)) = 0
       \<and> score (fst (afterCallback e cv s pre ob))
           = (if passed ob then score (atCallback e cv s pre)
              else score (atCallback e cv s pre) + 1)
       \<and> passed (snd (afterCallback e cv s pre ob))
       \<and> afterObstacles e cv s
           = (fst (restOfLoop e cv s pre ob post))
               \<lparr>obstacles := snd (obstaclesForEach e cv (frameSpeed cv s) (frameStart cv s) pre)
                  @ snd (afterCallback e cv s pre ob) # snd (restOfLoop e cv s pre ob post)\<rparr>
       \<and> passed (obstacles (afterObstacles e cv s) ! length pre)
       \<and> shield (player (afterObstacles e cv s)) = 0
       \<and> lives (player (atCallback e cv s pre)) - 1 \<le> lives (player (afterObstacles e cv s))
       \<and> lives (player (afterObstacles e cv s)) \<le> lives (player (atCallback e cv s pre))
       \<and> (post = []
            \<longrightarrow> lives (player (afterObstacles e cv s)) = lives (player (atCallback e cv s pre))
              \<and> combo (gameLoop e cv s) = 0 \<and> comboTimer (gameLoop e cv s) = 0
              \<and> score (afterObstacles e cv s)
                  = (if passed ob then score (atCallback e cv s pre)
                     else score (atCallback e cv s pre) + 1))
       \<and> (pre = [] \<and> post = [] \<and> powerUps s = []
            \<longrightarrow> shield (player (gameLoop e cv s)) = 0
              \<and> lives (player (gameLoop e cv s)) = lives (player s)
              \<and> score (gameLoop e cv s) = (if passed ob then score s else score s + 1)
              \<and> combo (gameLoop e cv s) = 0 \<and> comboTimer (gameLoop e cv s) = 0)"
proof -
  let ?sk = "atCallback e cv s pre"
  let ?r = "afterCallback e cv s pre ob"
  let ?R = "restOfLoop e cv s pre ob post"
  have cb: "shield (player (fst ?r)) = 0" "lives (player (fst ?r)) = lives (player ?sk)"
    "combo (fst ?r) = 0" "comboTimer (fst ?r) = 0"
    "score (fst ?r) = (if passed ob then score ?sk else score ?sk + 1)" "passed (snd ?r)"
    using callback_shielded_hit [OF assms(3,4,5,6), of e] by (simp_all add: afterCallback_def)
  have thr: "afterObstacles e cv s
      = (fst ?R)\<lparr>obstacles := snd (obstaclesForEach e cv (frameSpeed cv s) (frameStart cv s) pre)
          @ snd ?r # snd ?R\<rparr>"
    using assms(2) by (rule afterObstacles_through)
  note f = afterObstacles_through_fields [OF assms(2), of e cv]
  have latch: "passed (obstacles (afterObstacles e cv s) ! length pre)"
    using f(8) cb(6) by simp
  have sh: "shield (player (afterObstacles e cv s)) = 0"
    using obstaclesForEach_shield_zero [OF cb(1), of e cv "frameSpeed cv s" post] f(1)
    by (simp add: restOfLoop_def)
  have lv: "lives (player ?sk) - 1 \<le> lives (player (afterObstacles e cv s))"
    "lives (player (afterObstacles e cv s)) \<le> lives (player ?sk)"
    using obstaclesForEach_lives [of "fst ?r" e cv "frameSpeed cv s" post] f(1) cb(2)
    by (simp_all add: restOfLoop_def)
  have last: "lives (player (afterObstacles e cv s)) = lives (player ?sk)
      \<and> combo (gameLoop e cv s) = 0 \<and> comboTimer (gameLoop e cv s) = 0
      \<and> score (afterObstacles e cv s) = (if passed ob then score ?sk else score ?sk + 1)"
    if "post = []"
    using gameLoop_combo [OF assms(1), of e cv] f(1,2,3,4) cb that
    by (simp add: restOfLoop_Nil)
  have only: "shield (player (gameLoop e cv s)) = 0
      \<and> lives (player (gameLoop e cv s)) = lives (player s)
      \<and> score (gameLoop e cv s) = (if passed ob then score s else score s + 1)
      \<and> combo (gameLoop e cv s) = 0 \<and> comboTimer (gameLoop e cv s) = 0"
    if h: "pre = [] \<and> post = [] \<and> powerUps s = []"
  proof -
    have q: "powerUps s = []" using h by simp
    show ?thesis
      using last h sh gameLoop_after_quiet [OF assms(1) q, of e cv]
      by (simp add: atCallback_Nil)
  qed
  show ?thesis using cb thr latch sh lv last only by blast
qed

lemma callback_last_life_invincible:
  assumes "shield (player s) \<le> 0"
    and "invincible (player s) \<le> 0"
    and "checkCollision (player s) (ob\<lparr>o_x := o_x ob - speed\<rparr>) cv = (True, Pass)"
    and "p_color (player s) \<noteq> o_color ob"
  shows "invincible (player (fst (obstacleStep e cv speed s ob))) = 120"
  using assms by (simp add: obstacleStep_def Let_def saveBestScore_def)

text \<open>
  Claim C4, as the code has it. In a frame in which the callback of an obstacle registers a
  pass-through hit on an obstacle of another colour while the player has exactly one life,
  no shield and no invincibility, that callback sets the lives to 0 and the game-over flag,
  and the best score becomes the score of that moment exactly if it is greater, and exactly
  then \<^verbatim>\<open>saveBestScore\<close> is called with it (which writes to local storage when the component
  runs in the browser). The frame goes on from that state; at its end the game is over and
  best score and store are as the callback left them, and the lives are 0 after the loop,
  and at the end of the frame when no power-up is on screen.
\<close>

theorem last_life_hit_game_over:
  assumes "gameStarted s" and "obstacles s = pre @ ob # post"
    and "lives (player (atCallback e cv s pre)) = 1"
    and "shield (player (atCallback e cv s pre)) \<le> 0"
    and "invincible (player (atCallback e cv s pre)) \<le> 0"
    and "checkCollision (player (atCallback e cv s pre))
           (ob\<lparr>o_x := o_x ob - frameSpeed cv s\<rparr>) cv = (True, Pass)"
    and "p_color (player (atCallback e cv s pre)) \<noteq> o_color ob"
  shows "lives (player (fst (afterCallback e cv s pre ob))) = 0
       \<and> isGameOver (fst (afterCallback e cv s pre ob))
       \<and> bestScore (fst (afterCallback e cv s pre ob))
           = (if score (atCallback e cv s pre) > bestScore (atCallback e cv s pre)
              then score (atCallback e cv s pre) else bestScore (atCallback e cv s pre))
       \<and> localStorage (fst (afterCallback e cv s pre ob))
           = (if score (atCallback e cv s pre) > bestScore (atCallback e cv s pre)
              then localStorage (saveBestScore e (score (atCallback e cv s pre))
                     (atCallback e cv s pre))
              else localStorage (atCallback e cv s pre))
       \<and> afterObstacles e cv s
           = (fst (restOfLoop e cv s pre ob post))
               \<lparr>obstacles := snd (obstaclesForEach e cv (frameSpeed cv s) (frameStart cv s) pre)
                  @ snd (afterCallback e cv s pre ob) # snd (restOfLoop e cv s pre ob post)\<rparr>
       \<and> isGameOver (gameLoop e cv s)
       \<and> lives (player (afterObstacles e cv s)) = 0
       \<and> bestScore (gameLoop e cv s)
           = (if score (atCallback e cv s pre) > bestScore (atCallback e cv s pre)
              then score (atCallback e cv s pre) else bestScore (atCallback e cv s pre))
       \<and> localStorage (gameLoop e cv s)
           = (if score (atCallback e cv s pre) > bestScore (atCallback e cv s pre)
              then localStorage (saveBestScore e (score (atCallback e cv s pre))
                     (atCallback e cv s pre))
              else localStorage (atCallback e cv s pre))
       \<and> (powerUps s = [] \<longrightarrow> lives (player (gameLoop e cv s)) = 0)
       \<and> (pre = []
            \<longrightarrow> bestScore (gameLoop e cv s)
                  = (if score s > bestScore s then score s else bestScore s)
              \<and> localStorage (gameLoop e cv s)
                  = (if score s > bestScore s then localStorage (saveBestScore e (score s) s)
                     else localStorage s))"
proof -
  let ?sk = "atCallback e cv s pre"
  let ?r = "afterCallback e cv s pre ob"
  let ?R = "restOfLoop e cv s pre ob post"
  have cb: "lives (player (fst ?r)) = 0" "isGameOver (fst ?r)"
    "bestScore (fst ?r) = (if score ?sk > bestScore ?sk then score ?sk else bestScore ?sk)"
    "localStorage (fst ?r)
       = (if score ?sk > bestScore ?sk then localStorage (saveBestScore e (score ?sk) ?sk)
          else localStorage ?sk)"
    using callback_last_life_hit [OF assms(3,4,5,6,7), of e] by (simp_all add: afterCallback_def)
  have inv: "0 < invincible (player (fst ?r))"
    using callback_last_life_invincible [OF assms(4,5,6,7), of e]
    by (simp add: afterCallback_def)
  have thr: "afterObstacles e cv s
      = (fst ?R)\<lparr>obstacles := snd (obstaclesForEach e cv (frameSpeed cv s) (frameStart cv s) pre)
          @ snd ?r # snd ?R\<rparr>"
    using assms(2) by (rule afterObstacles_through)
  note f = afterObstacles_through_fields [OF assms(2), of e cv]
  have rest: "player (fst ?R) = player (fst ?r)" "bestScore (fst ?R) = bestScore (fst ?r)"
    "localStorage (fst ?R) = localStorage (fst ?r)" "isGameOver (fst ?R) = isGameOver (fst ?r)"
    using obstaclesForEach_invincible [OF inv, of e cv "frameSpeed cv s" post]
    by (simp_all add: restOfLoop_def)
  have over: "isGameOver (gameLoop e cv s)"
    using gameLoop_after_flags(1) [OF assms(1), of e cv] f(6) rest(4) cb(2) by simp
  have lv: "lives (player (afterObstacles e cv s)) = 0"
    using f(1) rest(1) cb(1) by simp
  have best: "bestScore (gameLoop e cv s)
      = (if score ?sk > bestScore ?sk then score ?sk else bestScore ?sk)"
    using gameLoop_after_flags(2) [OF assms(1), of e cv] f(5) rest(2) cb(3) by simp
  have store: "localStorage (gameLoop e cv s)
      = (if score ?sk > bestScore ?sk then localStorage (saveBestScore e (score ?sk) ?sk)
         else localStorage ?sk)"
    using gameLoop_after_flags(3) [OF assms(1), of e cv] f(7) rest(3) cb(4) by simp
  have quiet: "lives (player (gameLoop e cv s)) = 0" if q: "powerUps s = []"
    using gameLoop_after_quiet(2) [OF assms(1) q, of e cv] lv by simp
  have first: "bestScore (gameLoop e cv s)
        = (if score s > bestScore s then score s else bestScore s)
      \<and> localStorage (gameLoop e cv s)
        = (if score s > bestScore s then localStorage (saveBestScore e (score s) s)
           else localStorage s)"
    if "pre = []"
    using best store that by (simp add: atCallback_Nil saveBestScore_def)
  show ?thesis using cb thr over lv best store quiet first by blast
qed

lemma standing_callback:
  "frameSpeed demoCanvas (standing sh lv 50 bs obs) = 3"
  "frameSpeed demoCanvas (standing sh lv 0 bs obs) = 3"
  "player (atCallback e demoCanvas (standing sh lv sc bs obs) [])
     = player (standing sh lv sc bs obs)"
  "score (atCallback e demoCanvas (standing sh lv sc bs obs) []) = sc"
  "bestScore (atCallback e demoCanvas (standing sh lv sc bs obs) []) = bs"
  "combo (atCallback e demoCanvas (standing sh lv sc bs obs) []) = 0"
  by (simp_all add: frameSpeed_def atCallback_def frameStart_def standing_def currentSpeed_def
      updateLevel_def updatePhysics_def updateBackground_def demoCanvas_def Let_def
      OBSTACLE_BASE_SPEED_def SPEED_INCREASE_RATE_def MAX_SPEED_MULTIPLIER_def
      PLAYER_GRAVITY_def)

lemma standing_hit:
  "checkCollision (player (standing sh lv sc bs obs)) (redObstacle\<lparr>o_x := 100\<rparr>) demoCanvas
     = (True, Pass)"
  "checkCollision (player (standing sh lv sc bs obs)) (greenObstacle\<lparr>o_x := 100\<rparr>) demoCanvas
     = (True, Pass)"
  by (simp_all add: standing_def redObstacle_def greenObstacle_def demoCanvas_def
      geometry_defs)

lemma standing_facts:
  "gameStarted (standing sh lv sc bs obs)" "obstacles (standing sh lv sc bs obs) = obs"
  "powerUps (standing sh lv sc bs obs) = []" "score (standing sh lv sc bs obs) = sc"
  "combo (standing sh lv sc bs obs) = 0" "bestScore (standing sh lv sc bs obs) = bs"
  "localStorage (standing sh lv sc bs obs) = None"
  "p_color (player (standing sh lv sc bs obs)) = ''#ff4757''"
  "lives (player (standing sh lv sc bs obs)) = lv"
  "shield (player (standing sh lv sc bs obs)) = sh"
  "invincible (player (standing sh lv sc bs obs)) = 0"
  by (simp_all add: standing_def)

theorem same_color_pass_award_witness:
  "gameStarted (standing 0 3 0 0 [redObstacle])
   \<and> obstacles (standing 0 3 0 0 [redObstacle]) = [] @ redObstacle # []
   \<and> checkCollision (player (atCallback demoEnv demoCanvas (standing 0 3 0 0 [redObstacle]) []))
        (redObstacle\<lparr>o_x := o_x redObstacle
           - frameSpeed demoCanvas (standing 0 3 0 0 [redObstacle])\<rparr>) demoCanvas = (True, Pass)
   \<and> p_color (player (atCallback demoEnv demoCanvas (standing 0 3 0 0 [redObstacle]) []))
        = o_color redObstacle
   \<and> \<not> passed redObstacle
   \<and> score (gameLoop demoEnv demoCanvas (standing 0 3 0 0 [redObstacle])) = 10
   \<and> combo (gameLoop demoEnv demoCanvas (standing 0 3 0 0 [redObstacle])) = 1
   \<and> comboTimer (gameLoop demoEnv demoCanvas (standing 0 3 0 0 [redObstacle])) = 599
   \<and> passed (obstacles (afterObstacles demoEnv demoCanvas (standing 0 3 0 0 [redObstacle])) ! 0)"
proof -
  let ?s = "standing 0 3 0 0 [redObstacle]"
  have h1: "gameStarted ?s" by (simp add: standing_facts)
  have h2: "obstacles ?s = [] @ redObstacle # []" by (simp add: standing_facts)
  have x: "o_x redObstacle - frameSpeed demoCanvas ?s = 100"
    by (simp add: standing_callback redObstacle_def)
  have h3: "checkCollision (player (atCallback demoEnv demoCanvas ?s []))
      (redObstacle\<lparr>o_x := o_x redObstacle - frameSpeed demoCanvas ?s\<rparr>) demoCanvas
      = (True, Pass)"
    unfolding x by (simp add: standing_callback standing_hit)
  have h4: "p_color (player (atCallback demoEnv demoCanvas ?s [])) = o_color redObstacle"
    by (simp add: standing_callback standing_facts redObstacle_def)
  have h5: "\<not> passed redObstacle" by (simp add: redObstacle_def)
  have v: "o_type redObstacle = Normal" by (simp add: redObstacle_def)
  show ?thesis
    using same_color_pass_award [OF h1 h2 h3 h4 h5] h1 h2 h3 h4 h5 v
    by (simp add: standing_facts baseScoreOf_def COMBO_TIMEOUT_def)
qed

lemma standing_red_green_frame:
  "combo (gameLoop demoEnv demoCanvas
     (standing 0 3 0 0 [redObstacle, greenObstacle\<lparr>o_x := 110\<rparr>])) = 0"
  "comboTimer (gameLoop demoEnv demoCanvas
     (standing 0 3 0 0 [redObstacle, greenObstacle\<lparr>o_x := 110\<rparr>])) = 0"
  "score (gameLoop demoEnv demoCanvas
     (standing 0 3 0 0 [redObstacle, greenObstacle\<lparr>o_x := 110\<rparr>])) = 10"
  by (simp_all add: standing_def redObstacle_def greenObstacle_def frame_defs)

lemma standing_red_frame:
  "comboTimer (gameLoop demoEnv demoCanvas (standing 0 3 0 0 [redObstacle])) = 599"
  "combo (gameLoop demoEnv demoCanvas (standing 0 3 0 0 [redObstacle])) = 1"
  by (simp_all add: standing_def redObstacle_def frame_defs COMBO_TIMEOUT_def)

text \<open>
  The end of the frame against claim C2: after a same-colour pass-through the frame ends
  with the combo timer at 599, not at the full window of 600; and when an obstacle of
  another colour follows in the same frame, the frame ends with combo 0 and timer 0.
\<close>

theorem same_color_pass_award_counterexample:
  "checkCollision (player (atCallback demoEnv demoCanvas (standing 0 3 0 0 [redObstacle]) []))
     (redObstacle\<lparr>o_x := 100\<rparr>) demoCanvas = (True, Pass)
   \<and> frameSpeed demoCanvas (standing 0 3 0 0 [redObstacle]) = 3
   \<and> o_x redObstacle = 103 \<and> \<not> passed redObstacle
   \<and> p_color (player (standing 0 3 0 0 [redObstacle])) = o_color redObstacle
   \<and> COMBO_TIMEOUT = 600
   \<and> comboTimer (gameLoop demoEnv demoCanvas (standing 0 3 0 0 [redObstacle])) = 599
   \<and> combo (standing 0 3 0 0 [redObstacle, greenObstacle\<lparr>o_x := 110\<rparr>]) = 0
   \<and> combo (gameLoop demoEnv demoCanvas
        (standing 0 3 0 0 [redObstacle, greenObstacle\<lparr>o_x := 110\<rparr>])) = 0
   \<and> comboTimer (gameLoop demoEnv demoCanvas
        (standing 0 3 0 0 [redObstacle, greenObstacle\<lparr>o_x := 110\<rparr>])) = 0"
proof -
  have ob: "o_x redObstacle = 103" "\<not> passed redObstacle" "o_color redObstacle = ''#ff4757''"
    by (simp_all add: redObstacle_def)
  show ?thesis
    using ob
    by (simp add: standing_callback standing_hit standing_facts standing_red_frame
        standing_red_green_frame COMBO_TIMEOUT_def)
qed

lemma standing_shield_frames:
  "lives (player (gameLoop demoEnv demoCanvas
     (standing 300 3 0 0 [greenObstacle, greenObstacle\<lparr>o_x := 110\<rparr>]))) = 2"
  "shield (player (gameLoop demoEnv demoCanvas
     (standing 300 3 0 0 [greenObstacle, greenObstacle\<lparr>o_x := 110\<rparr>]))) = 0"
  "score (gameLoop demoEnv demoCanvas
     (standing 300 3 0 0 [greenObstacle, greenObstacle\<lparr>o_x := 110\<rparr>])) = 1"
  by (simp_all add: standing_def greenObstacle_def frame_defs)

text \<open>
  The end of the frame against claim C3: with the shield on and two obstacles of another
  colour overlapping the player, the first takes the shield and the second a life.
\<close>

theorem shielded_hit_consumes_shield_counterexample:
  "shield (player (atCallback demoEnv demoCanvas
      (standing 300 3 0 0 [greenObstacle, greenObstacle\<lparr>o_x := 110\<rparr>]) [])) = 300
   \<and> invincible (player (atCallback demoEnv demoCanvas
      (standing 300 3 0 0 [greenObstacle, greenObstacle\<lparr>o_x := 110\<rparr>]) [])) = 0
   \<and> checkCollision (player (atCallback demoEnv demoCanvas
      (standing 300 3 0 0 [greenObstacle, greenObstacle\<lparr>o_x := 110\<rparr>]) []))
      (greenObstacle\<lparr>o_x := 100\<rparr>) demoCanvas = (True, Pass)
   \<and> frameSpeed demoCanvas (standing 300 3 0 0 [greenObstacle, greenObstacle\<lparr>o_x := 110\<rparr>])
       = 3
   \<and> o_x greenObstacle = 103
   \<and> p_color (player (standing 300 3 0 0 [greenObstacle, greenObstacle\<lparr>o_x := 110\<rparr>]))
       \<noteq> o_color greenObstacle
   \<and> lives (player (standing 300 3 0 0 [greenObstacle, greenObstacle\<lparr>o_x := 110\<rparr>])) = 3
   \<and> lives (player (gameLoop demoEnv demoCanvas
        (standing 300 3 0 0 [greenObstacle, greenObstacle\<lparr>o_x := 110\<rparr>]))) = 2"
proof -
  have ob: "o_x greenObstacle = 103" "o_color greenObstacle = ''#2ed573''"
    by (simp_all add: greenObstacle_def)
  show ?thesis
    using ob
    by (simp add: standing_callback standing_hit standing_facts standing_shield_frames)
qed

theorem shielded_hit_consumes_shield_witness:
  "gameStarted (standing 300 3 0 0 [greenObstacle])
   \<and> obstacles (standing 300 3 0 0 [greenObstacle]) = [] @ greenObstacle # []
   \<and> shield (player (atCallback demoEnv demoCanvas (standing 300 3 0 0 [greenObstacle]) [])) > 0
   \<and> invincible (player (atCallback demoEnv demoCanvas (standing 300 3 0 0 [greenObstacle]) []))
        \<le> 0
   \<and> checkCollision (player (atCallback demoEnv demoCanvas (standing 300 3 0 0 [greenObstacle]) []))
        (greenObstacle\<lparr>o_x := o_x greenObstacle
           - frameSpeed demoCanvas (standing 300 3 0 0 [greenObstacle])\<rparr>) demoCanvas
        = (True, Pass)
   \<and> p_color (player (atCallback demoEnv demoCanvas (standing 300 3 0 0 [greenObstacle]) []))
        \<noteq> o_color greenObstacle
   \<and> shield (player (gameLoop demoEnv demoCanvas (standing 300 3 0 0 [greenObstacle]))) = 0
   \<and> lives (player (gameLoop demoEnv demoCanvas (standing 300 3 0 0 [greenObstacle]))) = 3
   \<and> score (gameLoop demoEnv demoCanvas (standing 300 3 0 0 [greenObstacle])) = 1
   \<and> combo (gameLoop demoEnv demoCanvas (standing 300 3 0 0 [greenObstacle])) = 0
   \<and> comboTimer (gameLoop demoEnv demoCanvas (standing 300 3 0 0 [greenObstacle])) = 0
   \<and> passed (obstacles (afterObstacles demoEnv demoCanvas
        (standing 300 3 0 0 [greenObstacle])) ! 0)"
proof -
  let ?s = "standing 300 3 0 0 [greenObstacle]"
  have h1: "gameStarted ?s" by (simp add: standing_facts)
  have h2: "obstacles ?s = [] @ greenObstacle # []" by (simp add: standing_facts)
  have h3: "shield (player (atCallback demoEnv demoCanvas ?s [])) > 0"
    by (simp add: standing_callback standing_facts)
  have h4: "invincible (player (atCallback demoEnv demoCanvas ?s [])) \<le> 0"
    by (simp add: standing_callback standing_facts)
  have x: "o_x greenObstacle - frameSpeed demoCanvas ?s = 100"
    by (simp add: standing_callback greenObstacle_def)
  have h5: "checkCollision (player (atCallback demoEnv demoCanvas ?s []))
      (greenObstacle\<lparr>o_x := o_x greenObstacle - frameSpeed demoCanvas ?s\<rparr>) demoCanvas
      = (True, Pass)"
    unfolding x by (simp add: standing_callback standing_hit)
  have h6: "p_color (player (atCallback demoEnv demoCanvas ?s [])) \<noteq> o_color greenObstacle"
    by (simp add: standing_callback standing_facts greenObstacle_def)
  have v: "\<not> passed greenObstacle" by (simp add: greenObstacle_def)
  show ?thesis
    using shielded_hit_consumes_shield [OF h1 h2 h3 h4 h5 h6] h1 h2 h3 h4 h5 h6 v
    by (simp add: standing_facts)
qed

lemma standing_fatal_frames:
  "isGameOver (gameLoop demoEnv demoCanvas
     (standing 0 1 50 50 [greenObstacle, redObstacle\<lparr>o_x := 110\<rparr>]))"
  "score (gameLoop demoEnv demoCanvas
     (standing 0 1 50 50 [greenObstacle, redObstacle\<lparr>o_x := 110\<rparr>])) = 60"
  "bestScore (gameLoop demoEnv demoCanvas
     (standing 0 1 50 50 [greenObstacle, redObstacle\<lparr>o_x := 110\<rparr>])) = 50"
  "localStorage (gameLoop demoEnv demoCanvas
     (standing 0 1 50 50 [greenObstacle, redObstacle\<lparr>o_x := 110\<rparr>])) = None"
  by (simp_all add: standing_def greenObstacle_def redObstacle_def frame_defs)

text \<open>
  The end of the frame against claim C4: score and best score are both 50 at the fatal hit,
  an obstacle of the player's colour follows in the same frame, and the frame ends with
  score 60, best score 50 and nothing stored.
\<close>

theorem last_life_hit_game_over_counterexample:
  "lives (player (atCallback demoEnv demoCanvas
      (standing 0 1 50 50 [greenObstacle, redObstacle\<lparr>o_x := 110\<rparr>]) [])) = 1
   \<and> shield (player (atCallback demoEnv demoCanvas
      (standing 0 1 50 50 [greenObstacle, redObstacle\<lparr>o_x := 110\<rparr>]) [])) = 0
   \<and> invincible (player (atCallback demoEnv demoCanvas
      (standing 0 1 50 50 [greenObstacle, redObstacle\<lparr>o_x := 110\<rparr>]) [])) = 0
   \<and> checkCollision (player (atCallback demoEnv demoCanvas
      (standing 0 1 50 50 [greenObstacle, redObstacle\<lparr>o_x := 110\<rparr>]) []))
      (greenObstacle\<lparr>o_x := 100\<rparr>) demoCanvas = (True, Pass)
   \<and> frameSpeed demoCanvas (standing 0 1 50 50 [greenObstacle, redObstacle\<lparr>o_x := 110\<rparr>]) = 3
   \<and> o_x greenObstacle = 103
   \<and> p_color (player (standing 0 1 50 50 [greenObstacle, redObstacle\<lparr>o_x := 110\<rparr>]))
       \<noteq> o_color greenObstacle
   \<and> bestScore (standing 0 1 50 50 [greenObstacle, redObstacle\<lparr>o_x := 110\<rparr>]) = 50
   \<and> isGameOver (gameLoop demoEnv demoCanvas
        (standing 0 1 50 50 [greenObstacle, redObstacle\<lparr>o_x := 110\<rparr>]))
   \<and> score (gameLoop demoEnv demoCanvas
        (standing 0 1 50 50 [greenObstacle, redObstacle\<lparr>o_x := 110\<rparr>])) = 60
   \<and> bestScore (gameLoop demoEnv demoCanvas
        (standing 0 1 50 50 [greenObstacle, redObstacle\<lparr>o_x := 110\<rparr>])) = 50
   \<and> localStorage (gameLoop demoEnv demoCanvas
        (standing 0 1 50 50 [greenObstacle, redObstacle\<lparr>o_x := 110\<rparr>])) = None"
proof -
  have ob: "o_x greenObstacle = 103" "o_color greenObstacle = ''#2ed573''"
    by (simp_all add: greenObstacle_def)
  show ?thesis
    using ob
    by (simp add: standing_callback standing_hit standing_facts standing_fatal_frames)
qed

theorem last_life_hit_game_over_witness:
  "gameStarted (standing 0 1 50 20 [greenObstacle])
   \<and> obstacles (standing 0 1 50 20 [greenObstacle]) = [] @ greenObstacle # []
   \<and> lives (player (atCallback demoEnv demoCanvas (standing 0 1 50 20 [greenObstacle]) [])) = 1
   \<and> shield (player (atCallback demoEnv demoCanvas (standing 0 1 50 20 [greenObstacle]) [])) \<le> 0
   \<and> invincible (player (atCallback demoEnv demoCanvas (standing 0 1 50 20 [greenObstacle]) []))
        \<le> 0
   \<and> checkCollision (player (atCallback demoEnv demoCanvas (standing 0 1 50 20 [greenObstacle]) []))
        (greenObstacle\<lparr>o_x := o_x greenObstacle
           - frameSpeed demoCanvas (standing 0 1 50 20 [greenObstacle])\<rparr>) demoCanvas
        = (True, Pass)
   \<and> p_color (player (atCallback demoEnv demoCanvas (standing 0 1 50 20 [greenObstacle]) []))
        \<noteq> o_color greenObstacle
   \<and> powerUps (standing 0 1 50 20 [greenObstacle]) = []
   \<and> isGameOver (gameLoop demoEnv demoCanvas (standing 0 1 50 20 [greenObstacle]))
   \<and> lives (player (gameLoop demoEnv demoCanvas (standing 0 1 50 20 [greenObstacle]))) = 0
   \<and> bestScore (gameLoop demoEnv demoCanvas (standing 0 1 50 20 [greenObstacle])) = 50
   \<and> localStorage (gameLoop demoEnv demoCanvas (standing 0 1 50 20 [greenObstacle])) = Some 50"
proof -
  let ?s = "standing 0 1 50 20 [greenObstacle]"
  have h1: "gameStarted ?s" by (simp add: standing_facts)
  have h2: "obstacles ?s = [] @ greenObstacle # []" by (simp add: standing_facts)
  have h3: "lives (player (atCallback demoEnv demoCanvas ?s [])) = 1"
    by (simp add: standing_callback standing_facts)
  have h4: "shield (player (atCallback demoEnv demoCanvas ?s [])) \<le> 0"
    by (simp add: standing_callback standing_facts)
  have h5: "invincible (player (atCallback demoEnv demoCanvas ?s [])) \<le> 0"
    by (simp add: standing_callback standing_facts)
  have x: "o_x greenObstacle - frameSpeed demoCanvas ?s = 100"
    by (simp add: standing_callback greenObstacle_def)
  have h6: "checkCollision (player (atCallback demoEnv demoCanvas ?s []))
      (greenObstacle\<lparr>o_x := o_x greenObstacle - frameSpeed demoCanvas ?s\<rparr>) demoCanvas
      = (True, Pass)"
    unfolding x by (simp add: standing_callback standing_hit)
  have h7: "p_color (player (atCallback demoEnv demoCanvas ?s [])) \<noteq> o_color greenObstacle"
    by (simp add: standing_callback standing_facts greenObstacle_def)
  have st: "localStorage (saveBestScore demoEnv 50 ?s) = Some 50"
    "localStorage (saveBestScore demoEnv 50 (atCallback demoEnv demoCanvas ?s [])) = Some 50"
    by (simp_all add: saveBestScore_def demoEnv_def)
  show ?thesis
    using last_life_hit_game_over [OF h1 h2 h3 h4 h5 h6 h7] h1 h2 h3 h4 h5 h6 h7 st
    by (simp add: standing_facts standing_callback)
qed

end
